theory Spec2Isabelle
  imports Complex_Main "HOL-Library.Multiset"
begin

section \<open>Python strings and lists\<close>

text \<open>
  A Python \<open>str\<close> is modelled as a \<open>string\<close> (a list of \<open>char\<close>); a \<open>char\<close> stands for a
  code point below 256. Coordinates and indices that the scripts read from files are
  Python integers (\<open>int\<close>); loop counters that only count upwards from 0 are \<open>nat\<close>.
\<close>

definition isspace :: "char \<Rightarrow> bool" where
  \<comment> \<open>the code points below 256 that \<open>str.split()\<close>, \<open>str.strip()\<close> and \<open>\s\<close> treat as whitespace\<close>
  "isspace c = ((of_char c :: nat) \<in> set [9, 10, 11, 12, 13, 28, 29, 30, 31, 32, 133, 160])"

fun split_acc :: "string \<Rightarrow> string \<Rightarrow> string list" where
  "split_acc w [] = (if w = [] then [] else [w])"
| "split_acc w (c # cs) =
     (if isspace c then (if w = [] then split_acc [] cs else w # split_acc [] cs)
      else split_acc (w @ [c]) cs)"

definition py_split :: "string \<Rightarrow> string list" where
  \<comment> \<open>\<open>s.split()\<close>: the maximal runs of non-whitespace\<close>
  "py_split s = split_acc [] s"

fun py_join :: "string \<Rightarrow> string list \<Rightarrow> string" where
  "py_join sep [] = []"
| "py_join sep [x] = x"
| "py_join sep (x # y # ys) = x @ sep @ py_join sep (y # ys)"

definition py_strip :: "string \<Rightarrow> string" where
  \<comment> \<open>\<open>s.strip()\<close>\<close>
  "py_strip s = rev (dropWhile isspace (rev (dropWhile isspace s)))"

definition rstrip_nl :: "string \<Rightarrow> string" where
  \<comment> \<open>\<open>s.rstrip('\n\r')\<close>\<close>
  "rstrip_nl s = rev (dropWhile (\<lambda>c. c = CHR 0x0A \<or> c = CHR 0x0D) (rev s))"

definition py_slice :: "'a list \<Rightarrow> int \<Rightarrow> int \<Rightarrow> 'a list" where
  \<comment> \<open>\<open>xs[i:j]\<close>: a negative index counts from the end, both are clamped to the list\<close>
  "py_slice xs i j =
     (let n = int (length xs);
          lo = (if i < 0 then max 0 (n + i) else min i n);
          hi = (if j < 0 then max 0 (n + j) else min j n)
      in take (nat hi - nat lo) (drop (nat lo) xs))"

definition py_slice_from :: "'a list \<Rightarrow> int \<Rightarrow> 'a list" where
  \<comment> \<open>\<open>xs[i:]\<close>\<close>
  "py_slice_from xs i = py_slice xs i (int (length xs))"

definition py_slice_to :: "'a list \<Rightarrow> int \<Rightarrow> 'a list" where
  \<comment> \<open>\<open>xs[:j]\<close>\<close>
  "py_slice_to xs j = py_slice xs 0 j"

definition py_index :: "'a list \<Rightarrow> int \<Rightarrow> 'a option" where
  \<comment> \<open>\<open>xs[i]\<close>: a negative index counts from the end; \<open>None\<close> is IndexError\<close>
  "py_index xs i =
     (let n = int (length xs)
      in if 0 \<le> i \<and> i < n then Some (xs ! nat i)
         else if - n \<le> i \<and> i < 0 then Some (xs ! nat (n + i))
         else None)"

section \<open>Coordinate extractor\<close>

text \<open>
  A document is the list of lines that \<open>f.readlines()\<close> returns: every line keeps its
  line break. \<open>readlines\<close> models that call on the decoded text of the file (text mode
  has already turned every line ending into \<open>\n\<close>).
\<close>

fun lines_acc :: "string \<Rightarrow> string \<Rightarrow> string list" where
  "lines_acc w [] = (if w = [] then [] else [w])"
| "lines_acc w (c # cs) =
     (if c = CHR 0x0A then (w @ [c]) # lines_acc [] cs else lines_acc (w @ [c]) cs)"

definition readlines :: "string \<Rightarrow> string list" where
  "readlines text = lines_acc [] text"

fun split_nl_acc :: "string \<Rightarrow> string \<Rightarrow> string list" where
  "split_nl_acc w [] = [w]"
| "split_nl_acc w (c # cs) =
     (if c = CHR 0x0A then w # split_nl_acc [] cs else split_nl_acc (w @ [c]) cs)"

definition split_nl :: "string \<Rightarrow> string list" where
  \<comment> \<open>\<open>s.split('\n')\<close>\<close>
  "split_nl s = split_nl_acc [] s"

definition line_body :: "string \<Rightarrow> string" where
  \<comment> \<open>a line without its line break\<close>
  "line_body l = (if l \<noteq> [] \<and> last l = CHR 0x0A then butlast l else l)"

definition extract_original_region ::
  "string list \<Rightarrow> int \<Rightarrow> int \<Rightarrow> int \<Rightarrow> int \<Rightarrow> string option" where
  \<comment> \<open>\<open>BoundaryGoldSetBuilder.extract_original_region\<close>, build_boundary_gold_set.py: the
      parts of a multi-line span are joined by one space. \<open>None\<close> is an uncaught IndexError.\<close>
  "extract_original_region original_lines start_line start_col end_line end_col =
     (if start_line > int (length original_lines) \<or> end_line > int (length original_lines)
      then Some []
      else
        let start_line_idx = start_line - 1;
            end_line_idx = end_line - 1;
            start_col_idx = start_col - 1;
            end_col_idx = end_col - 1
        in if start_line_idx = end_line_idx then
             (case py_index original_lines start_line_idx of
                None \<Rightarrow> None
              | Some raw \<Rightarrow>
                  let line = rstrip_nl raw
                  in if end_col_idx \<le> int (length line)
                     then Some (py_slice line start_col_idx end_col_idx)
                     else Some (py_slice_from line start_col_idx))
           else
             (case py_index original_lines start_line_idx of
                None \<Rightarrow> None
              | Some raw_first \<Rightarrow>
                  let first_line = rstrip_nl raw_first;
                      parts1 = (if start_col_idx < int (length first_line)
                                then [py_slice_from first_line start_col_idx] else [])
                  in (case those (map (py_index original_lines) [start_line_idx + 1 .. end_line_idx - 1]) of
                        None \<Rightarrow> None
                      | Some middle \<Rightarrow>
                          let parts2 = parts1 @ map rstrip_nl middle
                          in if end_line_idx < int (length original_lines) then
                               (case py_index original_lines end_line_idx of
                                  None \<Rightarrow> None
                                | Some raw_last \<Rightarrow>
                                    let last_line = rstrip_nl raw_last
                                    in if end_col_idx \<le> int (length last_line)
                                       then Some (py_join '' '' (parts2 @ [py_slice_to last_line end_col_idx]))
                                       else Some (py_join '' '' (parts2 @ [last_line])))
                             else Some (py_join '' '' parts2))))"

definition extract_original_text_from_coordinates ::
  "string list \<Rightarrow> int \<Rightarrow> int \<Rightarrow> int \<Rightarrow> int \<Rightarrow> string" where
  \<comment> \<open>\<open>extract_original_text_from_coordinates\<close>, the same function in
      build_seams_disagreement_set.py and find_seams_differences.py, on the lines it reads:
      the lines are concatenated with their own line breaks. Every exception is caught and
      gives the empty string.\<close>
  "extract_original_text_from_coordinates lines start_line start_col end_line end_col =
     (let start_line_idx = start_line - 1;
          end_line_idx = end_line - 1;
          start_col_idx = start_col - 1;
          end_col_idx = end_col - 1
      in if start_line_idx = end_line_idx then
           (case py_index lines start_line_idx of
              None \<Rightarrow> []
            | Some line \<Rightarrow> py_slice line start_col_idx end_col_idx)
         else
           (case py_index lines start_line_idx of
              None \<Rightarrow> []
            | Some first_line \<Rightarrow>
                (case those (map (py_index lines) [start_line_idx + 1 .. end_line_idx - 1]) of
                   None \<Rightarrow> []
                 | Some middle \<Rightarrow>
                     (case py_index lines end_line_idx of
                        None \<Rightarrow> []
                      | Some last_line \<Rightarrow>
                          py_slice_from first_line start_col_idx @ concat middle
                            @ py_slice_to last_line end_col_idx))))"

section \<open>Sentence aligner\<close>

text \<open>
  The similarity ratio is \<open>difflib.SequenceMatcher(None, a, b).ratio()\<close> of the Python
  standard library. It is not code of the repository and enters every definition as the
  parameter \<open>ratio\<close>; its float result is read as the rational it denotes. The double
  nearest to 0.9 is the least double that is at least 9/10, so comparing the float with
  the literal \<open>0.9\<close> is comparing the rational with 9/10.
\<close>

type_synonym similarity = "string \<Rightarrow> string \<Rightarrow> rat"

definition normalize_for_comparison :: "string \<Rightarrow> string" where
  \<comment> \<open>build_seams_disagreement_set.py\<close>
  "normalize_for_comparison text = py_strip (py_join '' '' (py_split text))"

definition sentences_are_similar :: "similarity \<Rightarrow> string list \<Rightarrow> string list \<Rightarrow> rat \<Rightarrow> bool" where
  \<comment> \<open>build_seams_disagreement_set.py; the \<open>debug\<close> flag only prints\<close>
  "sentences_are_similar ratio seams_sentences other_sentences threshold =
     (if length seams_sentences \<noteq> length other_sentences then False
      else
        let seams_text = py_join '' '' (map normalize_for_comparison seams_sentences);
            other_text = py_join '' '' (map normalize_for_comparison other_sentences);
            similarity = ratio seams_text other_text
        in similarity \<ge> threshold)"

definition normalize_text :: "string \<Rightarrow> string" where
  \<comment> \<open>find_seams_differences.py\<close>
  "normalize_text text = py_strip (py_join '' '' (py_split text))"

definition segmentations_differ :: "string list \<Rightarrow> string list \<Rightarrow> bool" where
  \<comment> \<open>find_seams_differences.py\<close>
  "segmentations_differ seams_sentences other_sentences =
     (if length seams_sentences \<noteq> length other_sentences then True
      else
        let seams_text = py_join '' '' (map normalize_text seams_sentences);
            other_text = py_join '' '' (map normalize_text other_sentences)
        in seams_text \<noteq> other_text)"

definition same_text_ratio :: similarity where
  \<comment> \<open>A ratio for closed evaluations: 1 on two identical texts, where \<open>difflib\<close> also
      returns 1.0 (every character is matched; 1.0 by convention for two empty texts).\<close>
  "same_text_ratio a b = (if a = b then 1 else 0)"

section \<open>Disagreement classifiers\<close>

definition classify_disagreement_boundary :: "string list \<Rightarrow> string list \<Rightarrow> string" where
  \<comment> \<open>\<open>BoundaryGoldSetBuilder.classify_disagreement\<close>, build_boundary_gold_set.py\<close>
  "classify_disagreement_boundary seams_sentences comparison_sentences =
     (let seams_count = length seams_sentences;
          comparison_count = length comparison_sentences
      in if comparison_count > seams_count then ''over_split''
         else if comparison_count < seams_count then ''under_split''
         else ''different_boundaries'')"

definition classify_disagreement_seams ::
  "similarity \<Rightarrow> string list \<Rightarrow> string list \<Rightarrow> string list \<Rightarrow> string" where
  \<comment> \<open>\<open>classify_disagreement\<close>, build_seams_disagreement_set.py; the threshold is the default 0.9\<close>
  "classify_disagreement_seams ratio seams_sentences pysbd_sentences nupunkt_sentences =
     (let seams_vs_pysbd = \<not> sentences_are_similar ratio seams_sentences pysbd_sentences (9/10);
          seams_vs_nupunkt = \<not> sentences_are_similar ratio seams_sentences nupunkt_sentences (9/10);
          pysbd_vs_nupunkt = \<not> sentences_are_similar ratio pysbd_sentences nupunkt_sentences (9/10)
      in if seams_vs_pysbd \<and> seams_vs_nupunkt \<and> \<not> pysbd_vs_nupunkt then ''seams_vs_both''
         else if seams_vs_pysbd \<and> \<not> seams_vs_nupunkt then ''seams_vs_pysbd''
         else if seams_vs_nupunkt \<and> \<not> seams_vs_pysbd then ''seams_vs_nupunkt''
         else if seams_vs_pysbd \<and> seams_vs_nupunkt \<and> pysbd_vs_nupunkt then ''all_disagree''
         else ''no_disagreement'')"

section \<open>Boundary chunker\<close>

text \<open>
  A row of a seams file is the tuple \<open>(text, start_line, start_col, end_line, end_col)\<close>
  that \<open>parse_seams_file\<close> builds.
\<close>

type_synonym seams_row = "string \<times> int \<times> int \<times> int \<times> int"

definition py_lower_char :: "char \<Rightarrow> char" where
  \<comment> \<open>\<open>str.lower()\<close> on one code point below 256\<close>
  "py_lower_char c =
     (let n = (of_char c :: nat)
      in if (65 \<le> n \<and> n \<le> 90) \<or> (192 \<le> n \<and> n \<le> 222 \<and> n \<noteq> 215)
         then char_of (n + 32) else c)"

definition py_lower :: "string \<Rightarrow> string" where
  "py_lower s = map py_lower_char s"

definition endswith :: "string \<Rightarrow> string \<Rightarrow> bool" where
  "endswith s v = (length v \<le> length s \<and> drop (length s - length v) s = v)"

definition startswith :: "string \<Rightarrow> string \<Rightarrow> bool" where
  "startswith s v = (take (length v) s = v)"

definition ends_with_attribution :: "string \<Rightarrow> bool" where
  \<comment> \<open>\<open>re.search(r'(said|asked|replied|shouted|whispered)[.!?]?\s*$', s)\<close>: one of the
      verbs, then at most one of \<open>.!?\<close>, then only whitespace up to the end\<close>
  "ends_with_attribution s =
     (let t = rev (dropWhile isspace (rev s));
          verbs = [''said'', ''asked'', ''replied'', ''shouted'', ''whispered''];
          verb_at_end = (\<lambda>u. \<exists>v \<in> set verbs. endswith u v)
      in verb_at_end t
         \<or> (t \<noteq> [] \<and> last t \<in> set ''.!?'' \<and> verb_at_end (butlast t)))"

definition natural_break :: "seams_row \<Rightarrow> seams_row \<Rightarrow> bool" where
  \<comment> \<open>the first three \<open>break\<close> tests of the inner loop of \<open>find_natural_text_boundaries\<close>\<close>
  "natural_break current_coords next_coords =
     (case (current_coords, next_coords) of
        ((current_sentence, _, _, current_end_line, _), (next_sentence, next_start_line, _, _, _)) \<Rightarrow>
          if next_start_line > current_end_line + 1 then True
          else if ends_with_attribution (py_lower current_sentence) then True
          else if endswith current_sentence [CHR 0x22] \<and> \<not> startswith next_sentence [CHR 0x22] then True
          else False)"

function inner_scan :: "seams_row list \<Rightarrow> nat \<Rightarrow> nat \<Rightarrow> nat" where
  \<comment> \<open>the inner \<open>while i < len(seams_data) - 1\<close> loop; the result is the final \<open>i\<close>\<close>
  "inner_scan seams_data start_idx i =
     (if i + 1 < length seams_data then
        if natural_break (seams_data ! i) (seams_data ! (i + 1)) then i
        else if i - start_idx \<ge> 10 then i
        else inner_scan seams_data start_idx (i + 1)
      else i)"
  by pat_completeness auto
termination
  by (relation "measure (\<lambda>(seams_data, start_idx, i). length seams_data - i)") auto

declare inner_scan.simps [simp del]

lemma inner_scan_ge: "i \<le> inner_scan seams_data start_idx i"
proof (induction seams_data start_idx i rule: inner_scan.induct)
  case (1 seams_data start_idx i)
  show ?case
  proof (cases "i + 1 < length seams_data
      \<and> \<not> natural_break (seams_data ! i) (seams_data ! (i + 1)) \<and> \<not> i - start_idx \<ge> 10")
    case True
    then have "i + 1 \<le> inner_scan seams_data start_idx (i + 1)" using 1 by simp
    moreover have "inner_scan seams_data start_idx i = inner_scan seams_data start_idx (i + 1)"
      using True by (subst inner_scan.simps) simp
    ultimately show ?thesis by simp
  next
    case False
    then have "inner_scan seams_data start_idx i = i"
      by (subst inner_scan.simps) auto
    then show ?thesis by simp
  qed
qed

function boundaries_from :: "seams_row list \<Rightarrow> nat \<Rightarrow> (nat \<times> nat) list" where
  \<comment> \<open>the outer \<open>while i < len(seams_data)\<close> loop, from the current \<open>i\<close>\<close>
  "boundaries_from seams_data i =
     (if i < length seams_data then
        let start_idx = i;
            j = inner_scan seams_data start_idx i;
            i' = (if j = start_idx then j + 1 else j)
        in (start_idx, i') # boundaries_from seams_data i'
      else [])"
  by pat_completeness auto
termination
proof (relation "measure (\<lambda>(seams_data, i). length seams_data - i)")
  show "wf (measure (\<lambda>(seams_data, i). length seams_data - i))" by simp
next
  fix seams_data :: "seams_row list" and i start_idx j i'
  assume "i < length seams_data" and "start_idx = i"
    and "j = inner_scan seams_data start_idx i"
    and "i' = (if j = start_idx then j + 1 else j)"
  moreover have "i \<le> inner_scan seams_data i i" by (rule inner_scan_ge)
  ultimately show "((seams_data, i'), (seams_data, i))
      \<in> measure (\<lambda>(seams_data, i). length seams_data - i)"
    by auto
qed

declare boundaries_from.simps [simp del]

definition next_start :: "seams_row list \<Rightarrow> nat \<Rightarrow> nat" where
  \<comment> \<open>the value of \<open>i\<close> after one round of the outer loop that starts at \<open>i\<close>\<close>
  "next_start d i = (if inner_scan d i i = i then i + 1 else inner_scan d i i)"

definition find_natural_text_boundaries :: "seams_row list \<Rightarrow> (nat \<times> nat) list" where
  \<comment> \<open>find_seams_differences.py\<close>
  "find_natural_text_boundaries seams_data = boundaries_from seams_data 0"

section \<open>Difference and disagreement records\<close>

text \<open>
  The reference segmenters (\<open>pysbd\<close>, \<open>nupunkt\<close>) are external libraries: each is a
  parameter of type \<open>segmenter\<close>, with \<open>None\<close> for a call that raises. The fields of the
  three record classes of the scripts carry a prefix (\<open>diff_\<close>, \<open>dis_\<close>, \<open>ex_\<close>),
  since the classes share field names.
\<close>

type_synonym segmenter = "string \<Rightarrow> string list option"

definition segment_with_pysbd :: "segmenter \<Rightarrow> string \<Rightarrow> string list" where
  "segment_with_pysbd pysbd_segment txt =
     (case pysbd_segment txt of
        None \<Rightarrow> []
      | Some sentences \<Rightarrow> filter (\<lambda>s. s \<noteq> []) (map py_strip sentences))"

definition segment_with_nupunkt :: "segmenter \<Rightarrow> string \<Rightarrow> string list" where
  "segment_with_nupunkt sent_tokenize txt =
     (case sent_tokenize txt of
        None \<Rightarrow> []
      | Some sentences \<Rightarrow> filter (\<lambda>s. s \<noteq> []) (map py_strip sentences))"

datatype 'a outcome = IndexError | Skipped | Recorded 'a
  \<comment> \<open>one round of a loop over chunks: an uncaught IndexError, \<open>continue\<close> without a record,
      or a record appended\<close>

fun collect :: "('c \<Rightarrow> 'a outcome) \<Rightarrow> 'c list \<Rightarrow> 'a list option" where
  \<comment> \<open>the loop: the records in order; \<open>None\<close> when a round raises\<close>
  "collect f [] = Some []"
| "collect f (c # cs) =
     (case f c of
        IndexError \<Rightarrow> None
      | Skipped \<Rightarrow> collect f cs
      | Recorded r \<Rightarrow> map_option (\<lambda>rs. r # rs) (collect f cs))"

record SeamsDifference =
  diff_original_text :: string
  diff_seams_sentences :: "string list"
  diff_pysbd_sentences :: "string list"
  diff_nupunkt_sentences :: "string list"
  diff_source_file :: string
  diff_text_start_line :: int
  diff_text_start_col :: int
  diff_text_end_line :: int
  diff_text_end_col :: int
  diff_differs_from_pysbd :: bool
  diff_differs_from_nupunkt :: bool

definition difference_in_chunk ::
  "segmenter \<Rightarrow> segmenter \<Rightarrow> string \<Rightarrow> string list \<Rightarrow> seams_row list \<Rightarrow> nat \<times> nat
     \<Rightarrow> SeamsDifference outcome" where
  \<comment> \<open>the body of the loop over \<open>boundaries\<close> in \<open>find_differences_in_file_pair\<close>,
      find_seams_differences.py; \<open>lines\<close> is what the original file holds\<close>
  "difference_in_chunk pysbd_segment sent_tokenize original_file lines seams_data chunk =
     (case chunk of (start_idx, end_idx) \<Rightarrow>
        let chunk_sentences = py_slice seams_data (int start_idx) (int end_idx)
        in case (py_index chunk_sentences 0, py_index chunk_sentences (- 1)) of
             (Some first_sentence, Some last_sentence) \<Rightarrow>
               (case (first_sentence, last_sentence) of
                  ((_, first_start_line, first_start_col, _, _), (_, _, _, last_end_line, last_end_col)) \<Rightarrow>
                    let original_text = extract_original_text_from_coordinates lines
                          first_start_line first_start_col last_end_line last_end_col
                    in if original_text = [] \<or> length (py_strip original_text) < 10 then Skipped
                       else
                         let seams_sentences = map fst chunk_sentences;
                             pysbd_sentences = segment_with_pysbd pysbd_segment original_text;
                             nupunkt_sentences = segment_with_nupunkt sent_tokenize original_text
                         in if pysbd_sentences = [] \<or> nupunkt_sentences = [] then Skipped
                            else
                              let differs_from_pysbd = segmentations_differ seams_sentences pysbd_sentences;
                                  differs_from_nupunkt = segmentations_differ seams_sentences nupunkt_sentences
                              in if differs_from_pysbd \<or> differs_from_nupunkt then
                                   Recorded \<lparr> diff_original_text = original_text,
                                      diff_seams_sentences = seams_sentences,
                                      diff_pysbd_sentences = pysbd_sentences,
                                      diff_nupunkt_sentences = nupunkt_sentences,
                                      diff_source_file = original_file,
                                      diff_text_start_line = first_start_line,
                                      diff_text_start_col = first_start_col,
                                      diff_text_end_line = last_end_line,
                                      diff_text_end_col = last_end_col,
                                      diff_differs_from_pysbd = differs_from_pysbd,
                                      diff_differs_from_nupunkt = differs_from_nupunkt \<rparr>
                                 else Skipped)
           | _ \<Rightarrow> IndexError)"

definition find_differences_in_file_pair ::
  "segmenter \<Rightarrow> segmenter \<Rightarrow> string \<Rightarrow> string list \<Rightarrow> seams_row list
     \<Rightarrow> SeamsDifference list option" where
  \<comment> \<open>find_seams_differences.py, on the parsed rows of the seams file\<close>
  "find_differences_in_file_pair pysbd_segment sent_tokenize original_file lines seams_data =
     (if seams_data = [] then Some []
      else collect (difference_in_chunk pysbd_segment sent_tokenize original_file lines seams_data)
             (find_natural_text_boundaries seams_data))"

record SeamsDisagreement =
  dis_original_text :: string
  dis_seams_sentences :: "string list"
  dis_pysbd_sentences :: "string list"
  dis_nupunkt_sentences :: "string list"
  dis_disagreement_type :: string
  dis_source_file :: string
  dis_text_region_start :: nat
  dis_text_region_end :: nat
  dis_complexity_indicators :: "string list"

definition disagreement_in_region ::
  "similarity \<Rightarrow> segmenter \<Rightarrow> segmenter \<Rightarrow> (string \<Rightarrow> string list) \<Rightarrow> string \<Rightarrow> string list
     \<Rightarrow> seams_row list \<Rightarrow> nat \<Rightarrow> SeamsDisagreement outcome" where
  \<comment> \<open>the body of the loop over 3-sentence windows in \<open>find_disagreements_in_file_pair\<close>,
      build_seams_disagreement_set.py. \<open>analyze_text_complexity\<close> (regular expressions
      over the region text) is a parameter: no claim depends on what it returns.\<close>
  "disagreement_in_region ratio pysbd_segment sent_tokenize analyze_text_complexity
       original_file lines seams_data i =
     (let region_size = 3;
          region_sentences = py_slice seams_data (int i) (int (i + region_size))
      in case (py_index region_sentences 0, py_index region_sentences (- 1)) of
           (Some first_sentence, Some last_sentence) \<Rightarrow>
             (case (first_sentence, last_sentence) of
                ((_, first_start_line, first_start_col, _, _), (_, _, _, last_end_line, last_end_col)) \<Rightarrow>
                  let original_text = extract_original_text_from_coordinates lines
                        first_start_line first_start_col last_end_line last_end_col
                  in if original_text = [] \<or> length (py_strip original_text) < 20 then Skipped
                     else
                       let seams_sentences = map fst region_sentences;
                           pysbd_sentences = segment_with_pysbd pysbd_segment original_text;
                           nupunkt_sentences = segment_with_nupunkt sent_tokenize original_text
                       in if pysbd_sentences = [] \<or> nupunkt_sentences = [] then Skipped
                          else
                            let disagreement_type = classify_disagreement_seams ratio
                                  seams_sentences pysbd_sentences nupunkt_sentences
                            in if disagreement_type \<in> set [''seams_vs_both'', ''seams_vs_pysbd'', ''seams_vs_nupunkt'']
                               then
                                 Recorded \<lparr> dis_original_text = original_text,
                                    dis_seams_sentences = seams_sentences,
                                    dis_pysbd_sentences = pysbd_sentences,
                                    dis_nupunkt_sentences = nupunkt_sentences,
                                    dis_disagreement_type = disagreement_type,
                                    dis_source_file = original_file,
                                    dis_text_region_start = i,
                                    dis_text_region_end = i + region_size,
                                    dis_complexity_indicators = analyze_text_complexity original_text \<rparr>
                               else Skipped)
         | _ \<Rightarrow> IndexError)"

definition find_disagreements_in_file_pair ::
  "similarity \<Rightarrow> segmenter \<Rightarrow> segmenter \<Rightarrow> (string \<Rightarrow> string list) \<Rightarrow> string \<Rightarrow> string list
     \<Rightarrow> seams_row list \<Rightarrow> SeamsDisagreement list option" where
  \<comment> \<open>build_seams_disagreement_set.py: \<open>range(0, len(seams_data) - 3 + 1, 3)\<close> is the
      multiples \<open>i\<close> of 3 with \<open>i + 3 \<le> len(seams_data)\<close>\<close>
  "find_disagreements_in_file_pair ratio pysbd_segment sent_tokenize analyze_text_complexity
       original_file lines seams_data =
     (if seams_data = [] then Some []
      else collect (disagreement_in_region ratio pysbd_segment sent_tokenize analyze_text_complexity
                      original_file lines seams_data)
             (map (\<lambda>k. 3 * k) [0..<length seams_data div 3]))"

section \<open>Boundary gold-set builder\<close>

text \<open>
  \<open>BoundaryGoldSetBuilder\<close> of build_boundary_gold_set.py. The optional libraries are
  parameters of type \<open>segmenter option\<close> (\<open>None\<close>: the import failed, the
  \<open>_AVAILABLE\<close> flag is false). \<open>classify_complexity\<close> (regular expressions over the
  region text) is a parameter: no claim depends on what it returns.
\<close>

record BoundaryExample =
  ex_original_text :: string
  ex_seams_sentences :: "string list"
  ex_comparison_sentences :: "string list"
  ex_comparison_method :: string
  ex_nupunkt_sentences :: "string list"
  ex_pysbd_sentences :: "string list"
  ex_source_file :: string
  ex_start_line :: int
  ex_end_line :: int
  ex_complexity :: string
  ex_disagreement_type :: string

fun is_substring :: "string \<Rightarrow> string \<Rightarrow> bool" where
  \<comment> \<open>\<open>a in b\<close>\<close>
  "is_substring a [] = (a = [])"
| "is_substring a (c # cs) = (startswith (c # cs) a \<or> is_substring a cs)"

definition sentences_overlap :: "similarity \<Rightarrow> string \<Rightarrow> string list \<Rightarrow> string \<Rightarrow> bool" where
  "sentences_overlap ratio comparison_sent seams_texts original_region =
     (let comparison_lower = py_lower comparison_sent;
          original_lower = py_lower original_region
      in if is_substring comparison_lower original_lower then True
         else if \<exists>seams_text \<in> set seams_texts. ratio comparison_lower (py_lower seams_text) > 7/10
         then True
         else
           let comparison_words = remdups (filter (\<lambda>word. length word > 4) (py_split comparison_lower))
           in if length comparison_words > 0 then
                let original_words = py_split original_lower;
                    overlap_ratio = (of_nat (length (filter (\<lambda>word. word \<in> set original_words) comparison_words)) :: rat)
                                      / of_nat (length comparison_words)
                in if overlap_ratio > 1/2 then True else False
              else False)"

definition get_nupunkt_pysbd_segmentations ::
  "segmenter option \<Rightarrow> segmenter option \<Rightarrow> string \<Rightarrow> string list \<times> string list" where
  "get_nupunkt_pysbd_segmentations nupunkt pysbd original_text =
     (let nupunkt_sentences = (case nupunkt of None \<Rightarrow> []
                               | Some sent_tokenize \<Rightarrow> segment_with_nupunkt sent_tokenize original_text);
          pysbd_sentences = (case pysbd of None \<Rightarrow> []
                             | Some pysbd_segment \<Rightarrow> segment_with_pysbd pysbd_segment original_text)
      in (nupunkt_sentences, pysbd_sentences))"

definition should_filter_example :: "bool \<Rightarrow> bool \<Rightarrow> BoundaryExample \<Rightarrow> bool" where
  \<comment> \<open>the two flags are \<open>NUPUNKT_AVAILABLE\<close> and \<open>PYSBD_AVAILABLE\<close>\<close>
  "should_filter_example nupunkt_available pysbd_available example =
     (let original_text = ex_original_text example
      in if \<not> list_ex (\<lambda>c. 97 \<le> (of_char c :: nat) \<and> (of_char c :: nat) \<le> 122) original_text then True
         else if nupunkt_available \<and> pysbd_available then
           let seams_sentences = filter (\<lambda>s. s \<noteq> []) (map py_strip (ex_seams_sentences example));
               nupunkt_sentences = ex_nupunkt_sentences example;
               pysbd_sentences = ex_pysbd_sentences example;
               normalized = (\<lambda>ss. filter (\<lambda>c. c \<noteq> CHR '' '') (py_lower (py_join '' '' ss)))
           in if length seams_sentences = length nupunkt_sentences
                 \<and> length nupunkt_sentences = length pysbd_sentences
                 \<and> length seams_sentences > 0
                 \<and> normalized seams_sentences = normalized nupunkt_sentences
                 \<and> normalized nupunkt_sentences = normalized pysbd_sentences
              then True else False
         else False)"

definition build_example ::
  "(string \<Rightarrow> string) \<Rightarrow> segmenter option \<Rightarrow> segmenter option \<Rightarrow> string
     \<Rightarrow> string list \<Rightarrow> string list \<Rightarrow> string \<Rightarrow> int \<Rightarrow> int \<Rightarrow> BoundaryExample" where
  \<comment> \<open>the statements of \<open>find_overlapping_regions\<close> under its guard, from
      \<open>disagreement_type = ...\<close> to the \<open>BoundaryExample(...)\<close> call\<close>
  "build_example classify_complexity nupunkt pysbd comparison_method
       seams_texts overlapping_comparison original_region region_start_line region_end_line =
     (let disagreement_type = classify_disagreement_boundary seams_texts overlapping_comparison;
          complexity = classify_complexity original_region;
          segs = get_nupunkt_pysbd_segmentations nupunkt pysbd (py_strip original_region)
      in \<lparr> ex_original_text = py_strip original_region,
            ex_seams_sentences = seams_texts,
            ex_comparison_sentences = overlapping_comparison,
            ex_comparison_method = comparison_method,
            ex_nupunkt_sentences = fst segs,
            ex_pysbd_sentences = snd segs,
            ex_source_file = [],
            ex_start_line = region_start_line,
            ex_end_line = region_end_line,
            ex_complexity = complexity,
            ex_disagreement_type = disagreement_type \<rparr>)"

definition region_step ::
  "similarity \<Rightarrow> (string \<Rightarrow> string) \<Rightarrow> segmenter option \<Rightarrow> segmenter option
     \<Rightarrow> seams_row list \<Rightarrow> string list \<Rightarrow> string list \<Rightarrow> string
     \<Rightarrow> nat \<Rightarrow> BoundaryExample list \<times> nat \<Rightarrow> (BoundaryExample list \<times> nat) option" where
  \<comment> \<open>one round of the loop of \<open>find_overlapping_regions\<close> at \<open>seams_start\<close>, on the
      state \<open>(examples, fast_idx)\<close>; \<open>None\<close> is an uncaught IndexError\<close>
  "region_step ratio classify_complexity nupunkt pysbd
       seams_sentences comparison_sentences original_lines comparison_method seams_start state =
     (case state of (examples, fast_idx) \<Rightarrow>
        let seams_group = py_slice seams_sentences (int seams_start) (int (seams_start + 3))
        in if seams_group = [] then Some (examples, fast_idx)
           else
             case (hd seams_group, last seams_group) of
               ((_, region_start_line, region_start_col, _, _), (_, _, _, region_end_line, region_end_col)) \<Rightarrow>
                 (case extract_original_region original_lines region_start_line region_start_col
                         region_end_line region_end_col of
                    None \<Rightarrow> None
                  | Some original_region \<Rightarrow>
                      if original_region = [] \<or> length original_region < 50 then Some (examples, fast_idx)
                      else
                        let seams_texts = map fst seams_group;
                            search_start = fast_idx - 5;
                            search_end = min (length comparison_sentences) (fast_idx + 20);
                            hits = filter (\<lambda>i. sentences_overlap ratio (comparison_sentences ! i)
                                                  seams_texts original_region)
                                     [search_start..<search_end];
                            overlapping_comparison = map (\<lambda>i. comparison_sentences ! i) hits;
                            consumed_count = length (filter (\<lambda>i. i \<ge> fast_idx) hits);
                            fast_idx' = (if consumed_count > 0 then fast_idx + consumed_count else fast_idx)
                        in if length overlapping_comparison \<noteq> length seams_texts \<and> overlapping_comparison \<noteq> []
                           then
                             let example = build_example classify_complexity nupunkt pysbd comparison_method
                                   seams_texts overlapping_comparison original_region
                                   region_start_line region_end_line
                             in if \<not> should_filter_example (nupunkt \<noteq> None) (pysbd \<noteq> None) example
                                then Some (examples @ [example], fast_idx')
                                else Some (examples, fast_idx')
                           else Some (examples, fast_idx')))"

fun run_regions ::
  "(nat \<Rightarrow> BoundaryExample list \<times> nat \<Rightarrow> (BoundaryExample list \<times> nat) option)
     \<Rightarrow> nat list \<Rightarrow> BoundaryExample list \<times> nat \<Rightarrow> (BoundaryExample list \<times> nat) option" where
  \<comment> \<open>the \<open>for\<close> loop: the rounds in order, stopping at a round that raises\<close>
  "run_regions step [] state = Some state"
| "run_regions step (seams_start # rest) state =
     (case step seams_start state of None \<Rightarrow> None | Some state' \<Rightarrow> run_regions step rest state')"

definition find_overlapping_regions ::
  "similarity \<Rightarrow> (string \<Rightarrow> string) \<Rightarrow> segmenter option \<Rightarrow> segmenter option
     \<Rightarrow> seams_row list \<Rightarrow> string list \<Rightarrow> string list \<Rightarrow> string \<Rightarrow> BoundaryExample list option" where
  \<comment> \<open>\<open>range(0, len(seams_sentences) - 1, 2)\<close> is the even \<open>k\<close> with \<open>k + 1 < len\<close>\<close>
  "find_overlapping_regions ratio classify_complexity nupunkt pysbd
       seams_sentences comparison_sentences original_lines comparison_method =
     map_option fst
       (run_regions
          (region_step ratio classify_complexity nupunkt pysbd
             seams_sentences comparison_sentences original_lines comparison_method)
          (map (\<lambda>k. 2 * k) [0..<length seams_sentences div 2])
          ([], 0))"

definition row_start_line :: "seams_row \<Rightarrow> int" where
  \<comment> \<open>\<open>sent[1]\<close>\<close>
  "row_start_line row = (case row of (_, start_line, _, _, _) \<Rightarrow> start_line)"

definition row_end_line :: "seams_row \<Rightarrow> int" where
  \<comment> \<open>\<open>sent[3]\<close>\<close>
  "row_end_line row = (case row of (_, _, _, end_line, _) \<Rightarrow> end_line)"

section \<open>Stratified sampler\<close>

text \<open>
  The sampling part of \<open>build_boundary_gold_set\<close> (build_boundary_gold_set.py), on the
  list \<open>all_examples\<close> it has collected. Python's \<open>random\<close> module is not code of the
  repository: \<open>random.sample\<close> and \<open>random.shuffle\<close> are parameters that take the state
  of the generator and return their result with the new state, so that a run is a
  function of the seeded state. \<open>examples_by_type\<close> is a dictionary in insertion order:
  an association list. The target size is a count (\<open>nat\<close>).
\<close>

type_synonym ('g, 'a) sampler = "'g \<Rightarrow> 'a list \<Rightarrow> nat \<Rightarrow> 'a list \<times> 'g"
type_synonym ('g, 'a) shuffler = "'g \<Rightarrow> 'a list \<Rightarrow> 'a list \<times> 'g"

definition example_key :: "BoundaryExample \<Rightarrow> string" where
  \<comment> \<open>\<open>f"{example.comparison_method}_{example.disagreement_type}_{example.complexity}"\<close>\<close>
  "example_key example =
     ex_comparison_method example @ ''_'' @ ex_disagreement_type example @ ''_'' @ ex_complexity example"

fun append_to_key :: "string \<Rightarrow> 'a \<Rightarrow> (string \<times> 'a list) list \<Rightarrow> (string \<times> 'a list) list" where
  \<comment> \<open>\<open>examples_by_type[key].append(example)\<close> on a \<open>defaultdict(list)\<close>\<close>
  "append_to_key k x [] = [(k, [x])]"
| "append_to_key k x ((k', xs) # rest) =
     (if k = k' then (k', xs @ [x]) # rest else (k', xs) # append_to_key k x rest)"

definition group_examples :: "BoundaryExample list \<Rightarrow> (string \<times> BoundaryExample list) list" where
  "group_examples all_examples =
     foldl (\<lambda>examples_by_type example. append_to_key (example_key example) example examples_by_type)
       [] all_examples"

fun sample_categories ::
  "('g, BoundaryExample) sampler \<Rightarrow> nat \<Rightarrow> nat \<Rightarrow> (string \<times> BoundaryExample list) list \<Rightarrow> 'g
     \<Rightarrow> BoundaryExample list \<times> 'g" where
  \<comment> \<open>the loop over \<open>examples_by_type.items()\<close>; \<open>n_categories\<close> is \<open>len(examples_by_type)\<close>;
      the result is what the loop adds to \<open>selected_examples\<close>\<close>
  "sample_categories sample target_size n_categories [] g = ([], g)"
| "sample_categories sample target_size n_categories ((category, examples) # rest) g =
     (let sample_size = min (length examples) (target_size div n_categories)
      in if examples \<noteq> [] then
           (case sample g examples (min sample_size (length examples)) of
              (selected, g') \<Rightarrow>
                (case sample_categories sample target_size n_categories rest g' of
                   (others, g'') \<Rightarrow> (selected @ others, g'')))
         else sample_categories sample target_size n_categories rest g)"

definition select_examples ::
  "('g, BoundaryExample) sampler \<Rightarrow> ('g, BoundaryExample) shuffler \<Rightarrow> nat \<Rightarrow> 'g
     \<Rightarrow> BoundaryExample list \<Rightarrow> BoundaryExample list \<times> 'g" where
  \<comment> \<open>\<open>build_boundary_gold_set\<close> from the comment "Stratified sampling" to its \<open>return\<close>;
      \<open>ex not in selected_examples\<close> compares the examples field by field (dataclass
      equality)\<close>
  "select_examples sample shuffle target_size g all_examples =
     (let examples_by_type = group_examples all_examples
      in case sample_categories sample target_size (length examples_by_type) examples_by_type g of
           (selected_examples, g1) \<Rightarrow>
             (case (if length selected_examples < target_size then
                      let remaining = filter (\<lambda>ex. ex \<notin> set selected_examples) all_examples;
                          additional_needed = target_size - length selected_examples
                      in if remaining \<noteq> [] then
                           (case sample g1 remaining (min additional_needed (length remaining)) of
                              (additional, g2) \<Rightarrow> (selected_examples @ additional, g2))
                         else (selected_examples, g1)
                    else (selected_examples, g1)) of
                (selected_examples', g2) \<Rightarrow>
                  (case shuffle g2 selected_examples' of
                     (shuffled, g3) \<Rightarrow> (take target_size shuffled, g3))))"

definition sample_contract :: "('g, 'a) sampler \<Rightarrow> bool" where
  \<comment> \<open>\<open>random.sample(population, k)\<close> with \<open>k \<le> len(population)\<close>: \<open>k\<close> elements taken
      from different positions of the population\<close>
  "sample_contract sample =
     (\<forall>g xs k. k \<le> length xs \<longrightarrow>
        length (fst (sample g xs k)) = k \<and> mset (fst (sample g xs k)) \<subseteq># mset xs)"

definition shuffle_contract :: "('g, 'a) shuffler \<Rightarrow> bool" where
  \<comment> \<open>\<open>random.shuffle(x)\<close>: a rearrangement of the list\<close>
  "shuffle_contract shuffle = (\<forall>g xs. mset (fst (shuffle g xs)) = mset xs)"

definition disagreement_example :: "BoundaryExample \<Rightarrow> bool" where
  \<comment> \<open>what the guard of \<open>find_overlapping_regions\<close> leaves of an example\<close>
  "disagreement_example ex =
     (ex_comparison_sentences ex \<noteq> []
      \<and> length (ex_comparison_sentences ex) \<noteq> length (ex_seams_sentences ex)
      \<and> (ex_disagreement_type ex = ''over_split'' \<or> ex_disagreement_type ex = ''under_split'')
      \<and> ex_disagreement_type ex \<noteq> ''different_boundaries'')"

section \<open>Properties of the aligner and the classifiers\<close>

lemma similar_same_length:
  "sentences_are_similar ratio a b t \<Longrightarrow> length a = length b"
  by (simp add: sentences_are_similar_def split: if_splits)

text \<open>
  C1 (as the code has it). The two-way classifier looks at the two counts only. It returns
  \<open>over_split\<close> exactly when the other list is longer, and then the lists are not
  equivalent; \<open>under_split\<close> exactly when the other list is shorter, and then the lists
  are not equivalent; \<open>different_boundaries\<close> exactly when the counts are equal, whether
  or not the lists are equivalent; it never returns \<open>no_disagreement\<close>.
\<close>

theorem classify_two_way_by_counts:
  "(classify_disagreement_boundary primary other = ''over_split''
      \<longleftrightarrow> length other > length primary \<and> \<not> sentences_are_similar ratio primary other (9/10))
   \<and> (classify_disagreement_boundary primary other = ''under_split''
      \<longleftrightarrow> length other < length primary \<and> \<not> sentences_are_similar ratio primary other (9/10))
   \<and> (classify_disagreement_boundary primary other = ''different_boundaries''
      \<longleftrightarrow> length other = length primary)
   \<and> classify_disagreement_boundary primary other \<noteq> ''no_disagreement''"
  using similar_same_length [of ratio primary other "9/10"]
  by (auto simp add: classify_disagreement_boundary_def Let_def)

theorem classify_two_way_by_counts_witness:
  "classify_disagreement_boundary [''He said, Hi.'', ''She left.''] [''He said, Hi. She left.'']
     = ''under_split''
   \<and> \<not> sentences_are_similar same_text_ratio
        [''He said, Hi.'', ''She left.''] [''He said, Hi. She left.''] (9/10)"
  using classify_two_way_by_counts
    [of "[''He said, Hi.'', ''She left.'']" "[''He said, Hi. She left.'']" same_text_ratio]
  by (simp add: classify_disagreement_boundary_def)

text \<open>
  C1 (as the specification states it) asks for \<open>no_disagreement\<close> whenever the two lists
  are equivalent. Two copies of the one-sentence list \<open>["a"]\<close> are equivalent, and the
  classifier answers \<open>different_boundaries\<close>.
\<close>

theorem classify_two_way_no_disagreement_counterexample:
  "sentences_are_similar same_text_ratio [''a''] [''a''] (9/10)
   \<and> classify_disagreement_boundary [''a''] [''a''] = ''different_boundaries''
   \<and> classify_disagreement_boundary [''a''] [''a''] \<noteq> ''no_disagreement''"
  by (simp add: sentences_are_similar_def same_text_ratio_def classify_disagreement_boundary_def)

text \<open>
  C2. The three-way classifier returns \<open>seams_vs_both\<close> (primary against both references)
  exactly when the primary list is not equivalent to the first reference, not equivalent to
  the second, and the two references are equivalent at threshold 0.9. In particular, when
  the references have the same count and similarity 0.97 and the primary is equivalent to
  neither, the result is \<open>seams_vs_both\<close>.
\<close>

theorem classify_three_way_primary_vs_both:
  "(classify_disagreement_seams ratio primary ref_a ref_b = ''seams_vs_both''
      \<longleftrightarrow> \<not> sentences_are_similar ratio primary ref_a (9/10)
          \<and> \<not> sentences_are_similar ratio primary ref_b (9/10)
          \<and> sentences_are_similar ratio ref_a ref_b (9/10))
   \<and> (length ref_a = length ref_b
        \<and> ratio (py_join '' '' (map normalize_for_comparison ref_a))
                (py_join '' '' (map normalize_for_comparison ref_b)) = 97/100
        \<and> \<not> sentences_are_similar ratio primary ref_a (9/10)
        \<and> \<not> sentences_are_similar ratio primary ref_b (9/10)
      \<longrightarrow> classify_disagreement_seams ratio primary ref_a ref_b = ''seams_vs_both'')"
proof -
  have iff: "classify_disagreement_seams ratio primary ref_a ref_b = ''seams_vs_both''
      \<longleftrightarrow> \<not> sentences_are_similar ratio primary ref_a (9/10)
          \<and> \<not> sentences_are_similar ratio primary ref_b (9/10)
          \<and> sentences_are_similar ratio ref_a ref_b (9/10)"
    by (simp add: classify_disagreement_seams_def Let_def)
  have agree: "sentences_are_similar ratio ref_a ref_b (9/10)"
    if "length ref_a = length ref_b"
      and "ratio (py_join '' '' (map normalize_for_comparison ref_a))
                 (py_join '' '' (map normalize_for_comparison ref_b)) = 97/100"
    using that by (simp add: sentences_are_similar_def Let_def)
  show ?thesis using iff agree by blast
qed

theorem classify_three_way_primary_vs_both_witness:
  "length [''One. Two.''] = length [''One.  Two.'']
   \<and> \<not> sentences_are_similar (\<lambda>a b. 97/100) [''One.'', ''Two.''] [''One. Two.''] (9/10)
   \<and> \<not> sentences_are_similar (\<lambda>a b. 97/100) [''One.'', ''Two.''] [''One.  Two.''] (9/10)
   \<and> classify_disagreement_seams (\<lambda>a b. 97/100) [''One.'', ''Two.''] [''One. Two.''] [''One.  Two.'']
       = ''seams_vs_both''"
  using classify_three_way_primary_vs_both
    [of "\<lambda>a b. 97/100" "[''One.'', ''Two.'']" "[''One. Two.'']" "[''One.  Two.'']"]
  by (simp add: sentences_are_similar_def)

text \<open>
  C3. Two sentence lists of different counts are never equivalent, whatever the threshold
  and whatever the similarity of their texts (the result does not depend on \<open>ratio\<close>: the
  count is compared first); the exact comparison of find_seams_differences.py likewise
  reports a difference.
\<close>

theorem count_mismatch_not_equivalent:
  "length a \<noteq> length b \<Longrightarrow>
     \<not> sentences_are_similar ratio a b threshold \<and> segmentations_differ a b"
  by (simp add: sentences_are_similar_def segmentations_differ_def)

theorem count_mismatch_not_equivalent_witness:
  "length [''a b''] \<noteq> length [''a'', ''b'']
   \<and> py_join '' '' (map normalize_for_comparison [''a b''])
       = py_join '' '' (map normalize_for_comparison [''a'', ''b''])
   \<and> \<not> sentences_are_similar same_text_ratio [''a b''] [''a'', ''b''] (9/10)
   \<and> segmentations_differ [''a b''] [''a'', ''b'']"
  using count_mismatch_not_equivalent [of "[''a b'']" "[''a'', ''b'']" same_text_ratio "9/10"]
  by (simp add: normalize_for_comparison_def py_strip_def py_split_def isspace_def)

section \<open>Properties of the extractor\<close>

lemma rstrip_nl_decomp: "\<exists>t. s = rstrip_nl s @ t"
proof -
  let ?P = "\<lambda>c. c = CHR 0x0A \<or> c = CHR 0x0D"
  have "s = rev (takeWhile ?P (rev s) @ dropWhile ?P (rev s))"
    by (simp only: takeWhile_dropWhile_id rev_rev_ident)
  then have "s = rstrip_nl s @ rev (takeWhile ?P (rev s))"
    by (simp only: rev_append rstrip_nl_def)
  then show ?thesis by blast
qed

lemma py_slice_nonneg:
  "0 \<le> i \<Longrightarrow> 0 \<le> j \<Longrightarrow> py_slice xs i j = take (nat j - nat i) (drop (nat i) xs)"
  by (auto simp add: py_slice_def Let_def min_def)

lemma py_slice_append:
  "0 \<le> i \<Longrightarrow> 0 \<le> j \<Longrightarrow> j \<le> int (length a) \<Longrightarrow> py_slice (a @ t) i j = py_slice a i j"
  by (auto simp add: py_slice_nonneg)

lemma py_index_in_range:
  "0 \<le> i \<Longrightarrow> i < int (length xs) \<Longrightarrow> py_index xs i = Some (xs ! nat i)"
  by (simp add: py_index_def)

text \<open>
  C4. For a span that starts and ends on the same line \<open>l\<close> of the document, with 1-based
  columns and an end column that does not pass the end of the line (its line break
  removed), the display extraction and the verbatim extraction both return
  \<open>line[sc-1 : ec-1]\<close>, that is, the \<open>ec - sc\<close> characters after the first \<open>sc - 1\<close>.
\<close>

theorem extract_same_line:
  assumes "1 \<le> l" and "l \<le> int (length lines)" and "1 \<le> sc" and "1 \<le> ec"
    and "ec - 1 \<le> int (length (rstrip_nl (lines ! nat (l - 1))))"
  shows "extract_original_region lines l sc l ec
           = Some (py_slice (rstrip_nl (lines ! nat (l - 1))) (sc - 1) (ec - 1))
       \<and> extract_original_text_from_coordinates lines l sc l ec
           = py_slice (rstrip_nl (lines ! nat (l - 1))) (sc - 1) (ec - 1)
       \<and> py_slice (rstrip_nl (lines ! nat (l - 1))) (sc - 1) (ec - 1)
           = take (nat (ec - 1) - nat (sc - 1)) (drop (nat (sc - 1)) (rstrip_nl (lines ! nat (l - 1))))"
proof -
  let ?raw = "lines ! nat (l - 1)"
  let ?line = "rstrip_nl ?raw"
  have idx: "py_index lines (l - 1) = Some ?raw"
    using assms(1,2) by (simp add: py_index_in_range)
  have display: "extract_original_region lines l sc l ec = Some (py_slice ?line (sc - 1) (ec - 1))"
    using assms(2,5) idx by (simp add: extract_original_region_def Let_def)
  obtain t where raw: "?raw = ?line @ t" using rstrip_nl_decomp by blast
  have "py_slice ?raw (sc - 1) (ec - 1) = py_slice ?line (sc - 1) (ec - 1)"
    using py_slice_append [of "sc - 1" "ec - 1" ?line t] assms(3,4,5) raw by simp
  then have verbatim: "extract_original_text_from_coordinates lines l sc l ec
      = py_slice ?line (sc - 1) (ec - 1)"
    using idx by (simp add: extract_original_text_from_coordinates_def Let_def)
  have "py_slice ?line (sc - 1) (ec - 1)
      = take (nat (ec - 1) - nat (sc - 1)) (drop (nat (sc - 1)) ?line)"
    using assms(3,4) by (simp add: py_slice_nonneg)
  with display verbatim show ?thesis by blast
qed

theorem extract_same_line_witness:
  "extract_original_region
      [''Title'' @ [CHR 0x0A], [CHR 0x0A], ''The quick brown fox'' @ [CHR 0x0A]] 3 1 3 4 = Some ''The''
   \<and> extract_original_text_from_coordinates
      [''Title'' @ [CHR 0x0A], [CHR 0x0A], ''The quick brown fox'' @ [CHR 0x0A]] 3 1 3 4 = ''The''"
  using extract_same_line
    [of 3 "[''Title'' @ [CHR 0x0A], [CHR 0x0A], ''The quick brown fox'' @ [CHR 0x0A]]" 1 4]
  by (simp add: rstrip_nl_def py_slice_def)

lemma those_py_index:
  "0 \<le> a \<Longrightarrow> b < int (length xs) \<Longrightarrow>
     those (map (py_index xs) [a..b]) = Some (map (\<lambda>i. xs ! nat i) [a..b])"
proof (induction a b rule: upto.induct)
  case (1 i j)
  show ?case
  proof (cases "i \<le> j")
    case True
    then have u: "[i..j] = i # [i + 1..j]" by (simp add: upto_rec1)
    have "those (map (py_index xs) [i + 1..j]) = Some (map (\<lambda>i. xs ! nat i) [i + 1..j])"
      using 1 True by simp
    moreover have "py_index xs i = Some (xs ! nat i)"
      using 1(2,3) True by (simp add: py_index_in_range)
    ultimately show ?thesis by (simp add: u)
  next
    case False
    then show ?thesis by simp
  qed
qed

lemma lines_acc_butlast:
  "CHR 0x0A \<notin> set w \<Longrightarrow>
     \<forall>l \<in> set (butlast (lines_acc w cs)). \<exists>b. l = b @ [CHR 0x0A] \<and> CHR 0x0A \<notin> set b"
proof (induction cs arbitrary: w)
  case Nil
  then show ?case by simp
next
  case (Cons c cs)
  show ?case
  proof (cases "c = CHR 0x0A")
    case True
    have ih: "\<forall>l \<in> set (butlast (lines_acc [] cs)). \<exists>b. l = b @ [CHR 0x0A] \<and> CHR 0x0A \<notin> set b"
      using Cons.IH [of "[]"] by simp
    show ?thesis
    proof
      fix l assume "l \<in> set (butlast (lines_acc w (c # cs)))"
      then have "l = w @ [CHR 0x0A] \<or> l \<in> set (butlast (lines_acc [] cs))"
        using True by (auto split: if_splits)
      then show "\<exists>b. l = b @ [CHR 0x0A] \<and> CHR 0x0A \<notin> set b"
        using ih Cons.prems by auto
    qed
  next
    case False
    then have "CHR 0x0A \<notin> set (w @ [c])" using Cons.prems by simp
    from Cons.IH [OF this] show ?thesis using False by simp
  qed
qed

lemma lines_acc_inner:
  "CHR 0x0A \<notin> set w \<Longrightarrow> \<forall>l \<in> set (lines_acc w cs). CHR 0x0A \<notin> set (butlast l)"
proof (induction cs arbitrary: w)
  case Nil
  then show ?case by (auto dest: in_set_butlastD)
next
  case (Cons c cs)
  show ?case
  proof (cases "c = CHR 0x0A")
    case True
    have ih: "\<forall>l \<in> set (lines_acc [] cs). CHR 0x0A \<notin> set (butlast l)"
      using Cons.IH [of "[]"] by simp
    show ?thesis
    proof
      fix l assume "l \<in> set (lines_acc w (c # cs))"
      then have "l = w @ [CHR 0x0A] \<or> l \<in> set (lines_acc [] cs)"
        using True by auto
      then show "CHR 0x0A \<notin> set (butlast l)"
        using ih Cons.prems by auto
    qed
  next
    case False
    then have "CHR 0x0A \<notin> set (w @ [c])" using Cons.prems by simp
    from Cons.IH [OF this] show ?thesis using False by simp
  qed
qed

lemma split_nl_acc_line:
  "CHR 0x0A \<notin> set b \<Longrightarrow> split_nl_acc w (b @ CHR 0x0A # rest) = (w @ b) # split_nl_acc [] rest"
  by (induction b arbitrary: w) auto

lemma split_nl_acc_free:
  "CHR 0x0A \<notin> set b \<Longrightarrow> split_nl_acc w b = [w @ b]"
  by (induction b arbitrary: w) auto

lemma line_body_terminated: "line_body (b @ [CHR 0x0A]) = b"
  by (simp add: line_body_def)

lemma split_nl_acc_concat:
  "\<forall>l \<in> set ms. \<exists>b. l = b @ [CHR 0x0A] \<and> CHR 0x0A \<notin> set b \<Longrightarrow> CHR 0x0A \<notin> set p \<Longrightarrow>
     split_nl_acc [] (concat ms @ p) = map line_body ms @ [p]"
proof (induction ms)
  case Nil
  then show ?case by (simp add: split_nl_acc_free)
next
  case (Cons m ms)
  then obtain b where b: "m = b @ [CHR 0x0A]" "CHR 0x0A \<notin> set b" by auto
  have "split_nl_acc [] (concat (m # ms) @ p) = split_nl_acc [] (b @ CHR 0x0A # (concat ms @ p))"
    by (simp add: b)
  also have "\<dots> = b # split_nl_acc [] (concat ms @ p)"
    using split_nl_acc_line [OF b(2), of "[]"] by simp
  finally show ?case using Cons b by (simp add: line_body_terminated)
qed

lemma line_body_prefix: "\<exists>t. l = line_body l @ t"
proof (cases "l \<noteq> [] \<and> last l = CHR 0x0A")
  case True
  then have "l \<noteq> []" by blast
  then have "butlast l @ [last l] = l" by (rule append_butlast_last_id)
  moreover have "line_body l = butlast l" using True by (simp add: line_body_def)
  ultimately have "l = line_body l @ [last l]" by (simp only:)
  then show ?thesis by blast
next
  case False
  then have "l = line_body l @ []" by (auto simp add: line_body_def)
  then show ?thesis by blast
qed

lemma line_body_free:
  assumes "CHR 0x0A \<notin> set (butlast l)"
  shows "CHR 0x0A \<notin> set (line_body l)"
proof (cases "l \<noteq> [] \<and> last l = CHR 0x0A")
  case True
  with assms show ?thesis by (simp add: line_body_def)
next
  case False
  show ?thesis
  proof (cases "l = []")
    case True then show ?thesis by (simp add: line_body_def)
  next
    case nonempty: False
    then have "butlast l @ [last l] = l" by (rule append_butlast_last_id)
    then have "set l = set (butlast l @ [last l])" by (simp only:)
    then have "set l = set (butlast l) \<union> {last l}" by (simp only: set_append list.set)
    with assms False nonempty show ?thesis by (auto simp add: line_body_def)
  qed
qed


lemma readlines_butlast_nth:
  assumes "i + 1 < length (readlines contents)"
  shows "\<exists>b. readlines contents ! i = b @ [CHR 0x0A] \<and> CHR 0x0A \<notin> set b"
proof -
  have "i < length (butlast (readlines contents))" using assms by simp
  then have "butlast (readlines contents) ! i \<in> set (butlast (readlines contents))" by (rule nth_mem)
  moreover have "butlast (readlines contents) ! i = readlines contents ! i"
    using assms by (simp add: nth_butlast)
  ultimately have "readlines contents ! i \<in> set (butlast (lines_acc [] contents))"
    by (simp add: readlines_def)
  then show ?thesis using lines_acc_butlast [of "[]" contents] by simp
qed

lemma readlines_nth_inner:
  assumes "i < length (readlines contents)"
  shows "CHR 0x0A \<notin> set (line_body (readlines contents ! i))"
proof -
  have "readlines contents ! i \<in> set (lines_acc [] contents)"
    using assms by (simp add: readlines_def)
  then have "CHR 0x0A \<notin> set (butlast (readlines contents ! i))"
    using lines_acc_inner [of "[]" contents] by simp
  then show ?thesis by (rule line_body_free)
qed

lemma py_slice_from_nonneg: "0 \<le> i \<Longrightarrow> py_slice_from xs i = drop (nat i) xs"
  by (simp add: py_slice_from_def py_slice_nonneg)

lemma py_slice_to_nonneg: "0 \<le> j \<Longrightarrow> py_slice_to xs j = take (nat j) xs"
  by (simp add: py_slice_to_def py_slice_nonneg)

text \<open>
  C5. For a span from line \<open>sl\<close> to a later line \<open>el\<close> of a document, both within the
  document, with 1-based columns, the verbatim extraction is the first line from column
  \<open>sc\<close> on, then the lines between in full, then the last line up to column \<open>ec\<close>,
  concatenated with nothing in between: every line keeps its own line break and no space
  is added. When the columns lie within the two lines, splitting the result at the line
  breaks gives back the suffix of the first line, the lines between and the prefix of the
  last line, one per piece.
\<close>

theorem extract_verbatim_multi_line:
  assumes "1 \<le> sl" and "sl < el" and "el \<le> int (length (readlines contents))"
    and "1 \<le> sc" and "1 \<le> ec"
  shows "extract_original_text_from_coordinates (readlines contents) sl sc el ec
           = drop (nat (sc - 1)) (readlines contents ! nat (sl - 1))
             @ concat (map (\<lambda>i. readlines contents ! nat i) [sl .. el - 2])
             @ take (nat (ec - 1)) (readlines contents ! nat (el - 1))
       \<and> (sc - 1 \<le> int (length (line_body (readlines contents ! nat (sl - 1))))
          \<and> ec - 1 \<le> int (length (line_body (readlines contents ! nat (el - 1))))
          \<longrightarrow> split_nl (extract_original_text_from_coordinates (readlines contents) sl sc el ec)
                = drop (nat (sc - 1)) (line_body (readlines contents ! nat (sl - 1)))
                  # map (\<lambda>i. line_body (readlines contents ! nat i)) [sl .. el - 2]
                  @ [take (nat (ec - 1)) (line_body (readlines contents ! nat (el - 1)))])"
proof -
  let ?lines = "readlines contents"
  let ?first = "?lines ! nat (sl - 1)"
  let ?last = "?lines ! nat (el - 1)"
  let ?mid = "map (\<lambda>i. ?lines ! nat i) [sl .. el - 2]"
  let ?res = "extract_original_text_from_coordinates ?lines sl sc el ec"
  have first: "py_index ?lines (sl - 1) = Some ?first"
    using assms(1-3) by (simp add: py_index_in_range)
  have last: "py_index ?lines (el - 1) = Some ?last"
    using assms(1-3) by (simp add: py_index_in_range)
  have mid: "those (map (py_index ?lines) [sl .. el - 2]) = Some ?mid"
    using assms(1-3) by (intro those_py_index) simp_all
  have res: "?res = drop (nat (sc - 1)) ?first @ concat ?mid @ take (nat (ec - 1)) ?last"
    using assms(2,4,5) first last mid
    by (simp add: extract_original_text_from_coordinates_def Let_def
        py_slice_from_nonneg py_slice_to_nonneg)
  have split: "split_nl ?res
      = drop (nat (sc - 1)) (line_body ?first)
        # map (\<lambda>i. line_body (?lines ! nat i)) [sl .. el - 2]
        @ [take (nat (ec - 1)) (line_body ?last)]"
    if c1: "sc - 1 \<le> int (length (line_body ?first))"
      and c2: "ec - 1 \<le> int (length (line_body ?last))"
  proof -
    have "nat (sl - 1) + 1 < length ?lines" using assms(1-3) by simp
    from readlines_butlast_nth [OF this]
    obtain b where b: "?first = b @ [CHR 0x0A]" "CHR 0x0A \<notin> set b" by blast
    have body1: "line_body ?first = b" using b by (simp add: line_body_terminated)
    have sfx: "drop (nat (sc - 1)) ?first = drop (nat (sc - 1)) b @ [CHR 0x0A]"
      using c1 body1 b(1) by simp
    have sfx_free: "CHR 0x0A \<notin> set (drop (nat (sc - 1)) b)"
      using b(2) by (meson in_set_dropD)
    have mid_term: "\<forall>l \<in> set ?mid. \<exists>b. l = b @ [CHR 0x0A] \<and> CHR 0x0A \<notin> set b"
    proof
      fix l assume "l \<in> set ?mid"
      then obtain i where i: "sl \<le> i" "i \<le> el - 2" "l = ?lines ! nat i" by auto
      then have "nat i + 1 < length ?lines" using assms(1-3) by simp
      from readlines_butlast_nth [OF this] i(3)
      show "\<exists>b. l = b @ [CHR 0x0A] \<and> CHR 0x0A \<notin> set b" by simp
    qed
    have "nat (el - 1) < length ?lines" using assms(1-3) by simp
    then have last_free: "CHR 0x0A \<notin> set (line_body ?last)" by (rule readlines_nth_inner)
    obtain t where t: "?last = line_body ?last @ t" using line_body_prefix by blast
    have "take (nat (ec - 1)) (line_body ?last @ t) = take (nat (ec - 1)) (line_body ?last)"
      using c2 by simp
    then have pfx: "take (nat (ec - 1)) ?last = take (nat (ec - 1)) (line_body ?last)"
      using t by simp
    have pfx_free: "CHR 0x0A \<notin> set (take (nat (ec - 1)) (line_body ?last))"
      using last_free by (meson in_set_takeD)
    have "split_nl ?res = split_nl_acc []
        (drop (nat (sc - 1)) b @ CHR 0x0A # (concat ?mid @ take (nat (ec - 1)) (line_body ?last)))"
      by (simp add: split_nl_def res sfx pfx)
    also have "\<dots> = drop (nat (sc - 1)) b
        # split_nl_acc [] (concat ?mid @ take (nat (ec - 1)) (line_body ?last))"
      using split_nl_acc_line [OF sfx_free, of "[]"] by simp
    also have "split_nl_acc [] (concat ?mid @ take (nat (ec - 1)) (line_body ?last))
        = map line_body ?mid @ [take (nat (ec - 1)) (line_body ?last)]"
      using mid_term pfx_free by (rule split_nl_acc_concat)
    finally show ?thesis by (simp add: body1 comp_def)
  qed
  from res split show ?thesis by blast
qed

theorem extract_verbatim_multi_line_witness:
  "extract_original_text_from_coordinates
      (readlines (''One two'' @ [CHR 0x0A] @ ''three'' @ [CHR 0x0A] @ ''four five'' @ [CHR 0x0A])) 1 5 3 5
     = ''two'' @ [CHR 0x0A] @ ''three'' @ [CHR 0x0A] @ ''four''
   \<and> split_nl (extract_original_text_from_coordinates
      (readlines (''One two'' @ [CHR 0x0A] @ ''three'' @ [CHR 0x0A] @ ''four five'' @ [CHR 0x0A])) 1 5 3 5)
     = [''two'', ''three'', ''four'']"
  using extract_verbatim_multi_line
    [of 1 3 "''One two'' @ [CHR 0x0A] @ ''three'' @ [CHR 0x0A] @ ''four five'' @ [CHR 0x0A]" 5 5]
  by (simp add: readlines_def line_body_def split_nl_def)

section \<open>Properties of the chunker\<close>

lemma inner_scan_lt: "i < length d \<Longrightarrow> inner_scan d s i < length d"
proof (induction d s i rule: inner_scan.induct)
  case (1 d s i)
  show ?case
  proof (cases "i + 1 < length d \<and> \<not> natural_break (d ! i) (d ! (i + 1)) \<and> \<not> i - s \<ge> 10")
    case True
    then have "inner_scan d s (i + 1) < length d" using 1 by simp
    moreover have "inner_scan d s i = inner_scan d s (i + 1)"
      using True by (subst inner_scan.simps) simp
    ultimately show ?thesis by simp
  next
    case False
    then have "inner_scan d s i = i" by (subst inner_scan.simps) auto
    then show ?thesis using 1(2) by simp
  qed
qed

lemma inner_scan_cap: "i - s \<le> 10 \<Longrightarrow> inner_scan d s i - s \<le> 10"
proof (induction d s i rule: inner_scan.induct)
  case (1 d s i)
  show ?case
  proof (cases "i + 1 < length d \<and> \<not> natural_break (d ! i) (d ! (i + 1)) \<and> \<not> i - s \<ge> 10")
    case True
    then have "i + 1 - s \<le> 10" by arith
    then have "inner_scan d s (i + 1) - s \<le> 10" using 1 True by simp
    moreover have "inner_scan d s i = inner_scan d s (i + 1)"
      using True by (subst inner_scan.simps) simp
    ultimately show ?thesis by simp
  next
    case False
    then have "inner_scan d s i = i" by (subst inner_scan.simps) auto
    then show ?thesis using 1(2) by simp
  qed
qed

lemma next_start_bounds:
  assumes "i < length d"
  shows "i < next_start d i" and "next_start d i \<le> length d" and "next_start d i - i \<le> 10"
proof -
  have ge: "i \<le> inner_scan d i i" by (rule inner_scan_ge)
  have lt: "inner_scan d i i < length d" using assms by (rule inner_scan_lt)
  have cap: "inner_scan d i i - i \<le> 10" by (rule inner_scan_cap) simp
  show "i < next_start d i" using ge by (simp add: next_start_def)
  show "next_start d i \<le> length d" using lt assms by (simp add: next_start_def)
  show "next_start d i - i \<le> 10" using cap by (simp add: next_start_def)
qed

lemma boundaries_from_step:
  "i < length d \<Longrightarrow> boundaries_from d i = (i, next_start d i) # boundaries_from d (next_start d i)"
  by (subst boundaries_from.simps) (simp add: next_start_def Let_def)

lemma boundaries_from_done: "\<not> i < length d \<Longrightarrow> boundaries_from d i = []"
  by (subst boundaries_from.simps) simp

lemma boundaries_cover:
  "i \<le> length d \<Longrightarrow> concat (map (\<lambda>(s, e). [s..<e]) (boundaries_from d i)) = [i..<length d]"
proof (induction "length d - i" arbitrary: i rule: less_induct)
  case less
  show ?case
  proof (cases "i < length d")
    case True
    note b = next_start_bounds [OF True]
    have "concat (map (\<lambda>(s, e). [s..<e]) (boundaries_from d (next_start d i)))
        = [next_start d i..<length d]"
      using less(1) [of "next_start d i"] b True by simp
    moreover have "[i..<next_start d i] @ [next_start d i..<length d] = [i..<length d]"
      using upt_add_eq_append [of i "next_start d i" "length d - next_start d i"] b by simp
    ultimately show ?thesis by (simp add: boundaries_from_step [OF True])
  next
    case False
    then show ?thesis using less(2) by (simp add: boundaries_from_done)
  qed
qed

lemma boundaries_size:
  "\<forall>(s, e) \<in> set (boundaries_from d i). s < e \<and> e - s \<le> 10 \<and> e \<le> length d"
proof (induction "length d - i" arbitrary: i rule: less_induct)
  case less
  show ?case
  proof (cases "i < length d")
    case True
    note b = next_start_bounds [OF True]
    have "\<forall>(s, e) \<in> set (boundaries_from d (next_start d i)). s < e \<and> e - s \<le> 10 \<and> e \<le> length d"
      using less(1) [of "next_start d i"] b True by simp
    then show ?thesis using b by (simp add: boundaries_from_step [OF True])
  next
    case False
    then show ?thesis by (simp add: boundaries_from_done)
  qed
qed

lemma concat_chunks:
  assumes "\<forall>(s, e) \<in> set bs. e \<le> length d"
  shows "concat (map (\<lambda>(s, e). take (e - s) (drop s d)) bs)
       = map (\<lambda>k. d ! k) (concat (map (\<lambda>(s, e). [s..<e]) bs))"
  using assms
proof (induction bs)
  case Nil
  then show ?case by simp
next
  case (Cons b bs)
  obtain s e where b: "b = (s, e)" by (cases b)
  have "e \<le> length d" using Cons.prems b by simp
  then have "take (e - s) (drop s d) = map (\<lambda>k. d ! k) [s..<e]"
    by (intro nth_equalityI) auto
  then show ?case using Cons b by simp
qed


text \<open>
  C7. The chunks that the chunker returns, read as half-open index ranges \<open>[start, end)\<close>,
  list the indices \<open>0, 1, ..., len - 1\<close> of the sentences in order, each exactly once;
  the slices \<open>seams_data[start:end]\<close> put end to end are the input list; every chunk
  holds at least 1 and at most 10 sentences; a non-empty input gives at least one chunk.
\<close>

theorem chunker_partition:
  "concat (map (\<lambda>(s, e). [s..<e]) (find_natural_text_boundaries d)) = [0..<length d]
   \<and> concat (map (\<lambda>(s, e). take (e - s) (drop s d)) (find_natural_text_boundaries d)) = d
   \<and> (\<forall>(s, e) \<in> set (find_natural_text_boundaries d). 1 \<le> e - s \<and> e - s \<le> 10)
   \<and> (d \<noteq> [] \<longrightarrow> find_natural_text_boundaries d \<noteq> [])"
proof -
  let ?bs = "find_natural_text_boundaries d"
  have cover: "concat (map (\<lambda>(s, e). [s..<e]) ?bs) = [0..<length d]"
    using boundaries_cover [of 0 d] by (simp add: find_natural_text_boundaries_def)
  have size: "\<forall>(s, e) \<in> set ?bs. s < e \<and> e - s \<le> 10 \<and> e \<le> length d"
    using boundaries_size [of d 0] by (simp add: find_natural_text_boundaries_def)
  then have "\<forall>(s, e) \<in> set ?bs. e \<le> length d" by auto
  then have "concat (map (\<lambda>(s, e). take (e - s) (drop s d)) ?bs)
      = map (\<lambda>k. d ! k) (concat (map (\<lambda>(s, e). [s..<e]) ?bs))"
    by (rule concat_chunks)
  then have chunks: "concat (map (\<lambda>(s, e). take (e - s) (drop s d)) ?bs) = d"
    by (simp add: cover map_nth)
  have sizes: "\<forall>(s, e) \<in> set ?bs. 1 \<le> e - s \<and> e - s \<le> 10"
    using size by auto
  have nonempty: "d \<noteq> [] \<longrightarrow> ?bs \<noteq> []"
    using boundaries_from_step [of 0 d] by (simp add: find_natural_text_boundaries_def)
  from cover chunks sizes nonempty show ?thesis by blast
qed

theorem chunker_partition_witness:
  "find_natural_text_boundaries
      [(''A.'', 1, 1, 1, 3), (''B.'', 1, 4, 1, 6), (''C said'', 1, 7, 1, 13), (''D.'', 1, 14, 1, 16)]
     = [(0, 2), (2, 3), (3, 4)]
   \<and> concat (map (\<lambda>(s, e). [s..<e]) (find_natural_text_boundaries
      [(''A.'', 1, 1, 1, 3), (''B.'', 1, 4, 1, 6), (''C said'', 1, 7, 1, 13), (''D.'', 1, 14, 1, 16)]))
     = [0, 1, 2, 3]"
proof -
  have run: "find_natural_text_boundaries
      [(''A.'', 1, 1, 1, 3), (''B.'', 1, 4, 1, 6), (''C said'', 1, 7, 1, 13), (''D.'', 1, 14, 1, 16)]
     = [(0, 2), (2, 3), (3, 4)]"
    by code_simp
  from chunker_partition
    [of "[(''A.'', 1, 1, 1, 3), (''B.'', 1, 4, 1, 6), (''C said'', 1, 7, 1, 13), (''D.'', 1, 14, 1, 16)]"]
  have "concat (map (\<lambda>(s, e). [s..<e]) (find_natural_text_boundaries
      [(''A.'', 1, 1, 1, 3), (''B.'', 1, 4, 1, 6), (''C said'', 1, 7, 1, 13), (''D.'', 1, 14, 1, 16)]))
     = [0..<length [(''A.'', 1 :: int, 1 :: int, 1 :: int, 3 :: int), (''B.'', 1, 4, 1, 6),
                    (''C said'', 1, 7, 1, 13), (''D.'', 1, 14, 1, 16)]]"
    by blast
  also have "\<dots> = [0, 1, 2, 3]" by (simp add: upt_rec)
  finally show ?thesis using run by blast
qed

section \<open>Properties of the record loops\<close>

lemma collect_recorded:
  "collect f cs = Some rs \<Longrightarrow> \<forall>r \<in> set rs. \<exists>c \<in> set cs. f c = Recorded r"
proof (induction cs arbitrary: rs)
  case Nil
  then show ?case by simp
next
  case (Cons c cs)
  show ?case
  proof (cases "f c")
    case IndexError
    with Cons.prems show ?thesis by simp
  next
    case Skipped
    with Cons show ?thesis by simp
  next
    case (Recorded r)
    with Cons.prems obtain rs' where rs': "collect f cs = Some rs'" "rs = r # rs'" by auto
    from Cons.IH [OF rs'(1)] Recorded rs'(2) show ?thesis by auto
  qed
qed

lemma difference_in_chunk_recorded:
  assumes "difference_in_chunk pysbd nupunkt fname lines seams_data (s, e) = Recorded r"
  shows "diff_seams_sentences r = map fst (py_slice seams_data (int s) (int e))"
    and "diff_pysbd_sentences r = segment_with_pysbd pysbd (diff_original_text r)"
    and "diff_nupunkt_sentences r = segment_with_nupunkt nupunkt (diff_original_text r)"
    and "segmentations_differ (diff_seams_sentences r) (diff_pysbd_sentences r)
       \<or> segmentations_differ (diff_seams_sentences r) (diff_nupunkt_sentences r)"
  using assms
  by (auto simp add: difference_in_chunk_def Let_def split: option.splits prod.splits if_splits)

lemma disagreement_in_region_recorded:
  assumes "disagreement_in_region ratio pysbd nupunkt cx fname lines seams_data i = Recorded q"
  shows "dis_seams_sentences q = map fst (py_slice seams_data (int i) (int (i + 3)))"
    and "dis_pysbd_sentences q = segment_with_pysbd pysbd (dis_original_text q)"
    and "dis_nupunkt_sentences q = segment_with_nupunkt nupunkt (dis_original_text q)"
    and "dis_disagreement_type q = classify_disagreement_seams ratio
           (dis_seams_sentences q) (dis_pysbd_sentences q) (dis_nupunkt_sentences q)"
    and "dis_disagreement_type q \<in> {''seams_vs_both'', ''seams_vs_pysbd'', ''seams_vs_nupunkt''}"
  using assms
  by (auto simp add: disagreement_in_region_def Let_def split: option.splits prod.splits if_splits)

lemma classify_seams_retained:
  assumes "classify_disagreement_seams ratio a b c \<in> {''seams_vs_both'', ''seams_vs_pysbd'', ''seams_vs_nupunkt''}"
  shows "\<not> sentences_are_similar ratio a b (9/10) \<or> \<not> sentences_are_similar ratio a c (9/10)"
  using assms by (auto simp add: classify_disagreement_seams_def Let_def split: if_splits)


text \<open>
  C6. A record is appended for a chunk only when the primary (seams) sentences of the
  chunk are judged different from the sentences that at least one reference segmenter
  gives for the text of the same region; so when both references are judged equivalent to
  the primary, the chunk yields no record. This holds for one chunk and for the list that
  a whole file pair yields, in find_seams_differences.py (exact comparison) and in
  build_seams_disagreement_set.py (similarity at threshold 0.9).
\<close>

theorem records_only_on_disagreement:
  "(difference_in_chunk pysbd nupunkt fname lines seams_data (s, e) = Recorded r \<longrightarrow>
      diff_seams_sentences r = map fst (py_slice seams_data (int s) (int e))
      \<and> diff_pysbd_sentences r = segment_with_pysbd pysbd (diff_original_text r)
      \<and> diff_nupunkt_sentences r = segment_with_nupunkt nupunkt (diff_original_text r)
      \<and> (segmentations_differ (diff_seams_sentences r) (diff_pysbd_sentences r)
         \<or> segmentations_differ (diff_seams_sentences r) (diff_nupunkt_sentences r)))
   \<and> (find_differences_in_file_pair pysbd nupunkt fname lines seams_data = Some ds \<longrightarrow>
      (\<forall>r \<in> set ds.
         segmentations_differ (diff_seams_sentences r) (diff_pysbd_sentences r)
         \<or> segmentations_differ (diff_seams_sentences r) (diff_nupunkt_sentences r)))
   \<and> (disagreement_in_region ratio pysbd nupunkt cx fname lines seams_data i = Recorded q \<longrightarrow>
      dis_seams_sentences q = map fst (py_slice seams_data (int i) (int (i + 3)))
      \<and> dis_pysbd_sentences q = segment_with_pysbd pysbd (dis_original_text q)
      \<and> dis_nupunkt_sentences q = segment_with_nupunkt nupunkt (dis_original_text q)
      \<and> (\<not> sentences_are_similar ratio (dis_seams_sentences q) (dis_pysbd_sentences q) (9/10)
         \<or> \<not> sentences_are_similar ratio (dis_seams_sentences q) (dis_nupunkt_sentences q) (9/10)))
   \<and> (find_disagreements_in_file_pair ratio pysbd nupunkt cx fname lines seams_data = Some qs \<longrightarrow>
      (\<forall>q \<in> set qs.
         \<not> sentences_are_similar ratio (dis_seams_sentences q) (dis_pysbd_sentences q) (9/10)
         \<or> \<not> sentences_are_similar ratio (dis_seams_sentences q) (dis_nupunkt_sentences q) (9/10)))"
proof -
  have region: "\<not> sentences_are_similar ratio (dis_seams_sentences q') (dis_pysbd_sentences q') (9/10)
         \<or> \<not> sentences_are_similar ratio (dis_seams_sentences q') (dis_nupunkt_sentences q') (9/10)"
    if "disagreement_in_region ratio pysbd nupunkt cx fname lines seams_data i' = Recorded q'"
    for i' q'
    using disagreement_in_region_recorded(4,5) [OF that] classify_seams_retained by metis
  have c1: "difference_in_chunk pysbd nupunkt fname lines seams_data (s, e) = Recorded r \<longrightarrow>
      diff_seams_sentences r = map fst (py_slice seams_data (int s) (int e))
      \<and> diff_pysbd_sentences r = segment_with_pysbd pysbd (diff_original_text r)
      \<and> diff_nupunkt_sentences r = segment_with_nupunkt nupunkt (diff_original_text r)
      \<and> (segmentations_differ (diff_seams_sentences r) (diff_pysbd_sentences r)
         \<or> segmentations_differ (diff_seams_sentences r) (diff_nupunkt_sentences r))"
  proof
    assume a: "difference_in_chunk pysbd nupunkt fname lines seams_data (s, e) = Recorded r"
    from difference_in_chunk_recorded [OF a]
    show "diff_seams_sentences r = map fst (py_slice seams_data (int s) (int e))
      \<and> diff_pysbd_sentences r = segment_with_pysbd pysbd (diff_original_text r)
      \<and> diff_nupunkt_sentences r = segment_with_nupunkt nupunkt (diff_original_text r)
      \<and> (segmentations_differ (diff_seams_sentences r) (diff_pysbd_sentences r)
         \<or> segmentations_differ (diff_seams_sentences r) (diff_nupunkt_sentences r))"
      by - (intro conjI; assumption)
  qed
  have c2: "find_differences_in_file_pair pysbd nupunkt fname lines seams_data = Some ds \<longrightarrow>
      (\<forall>r \<in> set ds.
         segmentations_differ (diff_seams_sentences r) (diff_pysbd_sentences r)
         \<or> segmentations_differ (diff_seams_sentences r) (diff_nupunkt_sentences r))"
  proof (intro impI ballI)
    fix r' assume a: "find_differences_in_file_pair pysbd nupunkt fname lines seams_data = Some ds"
      and r': "r' \<in> set ds"
    show "segmentations_differ (diff_seams_sentences r') (diff_pysbd_sentences r')
         \<or> segmentations_differ (diff_seams_sentences r') (diff_nupunkt_sentences r')"
    proof (cases "seams_data = []")
      case True
      with a r' show ?thesis by (simp add: find_differences_in_file_pair_def)
    next
      case False
      with a have "collect (difference_in_chunk pysbd nupunkt fname lines seams_data)
          (find_natural_text_boundaries seams_data) = Some ds"
        by (simp add: find_differences_in_file_pair_def)
      from collect_recorded [OF this] r' obtain c
        where "difference_in_chunk pysbd nupunkt fname lines seams_data c = Recorded r'" by blast
      then have "difference_in_chunk pysbd nupunkt fname lines seams_data (fst c, snd c) = Recorded r'"
        by simp
      then show ?thesis by (rule difference_in_chunk_recorded(4))
    qed
  qed
  have c3: "disagreement_in_region ratio pysbd nupunkt cx fname lines seams_data i = Recorded q \<longrightarrow>
      dis_seams_sentences q = map fst (py_slice seams_data (int i) (int (i + 3)))
      \<and> dis_pysbd_sentences q = segment_with_pysbd pysbd (dis_original_text q)
      \<and> dis_nupunkt_sentences q = segment_with_nupunkt nupunkt (dis_original_text q)
      \<and> (\<not> sentences_are_similar ratio (dis_seams_sentences q) (dis_pysbd_sentences q) (9/10)
         \<or> \<not> sentences_are_similar ratio (dis_seams_sentences q) (dis_nupunkt_sentences q) (9/10))"
  proof
    assume a: "disagreement_in_region ratio pysbd nupunkt cx fname lines seams_data i = Recorded q"
    from disagreement_in_region_recorded(1,2,3) [OF a] region [OF a]
    show "dis_seams_sentences q = map fst (py_slice seams_data (int i) (int (i + 3)))
      \<and> dis_pysbd_sentences q = segment_with_pysbd pysbd (dis_original_text q)
      \<and> dis_nupunkt_sentences q = segment_with_nupunkt nupunkt (dis_original_text q)
      \<and> (\<not> sentences_are_similar ratio (dis_seams_sentences q) (dis_pysbd_sentences q) (9/10)
         \<or> \<not> sentences_are_similar ratio (dis_seams_sentences q) (dis_nupunkt_sentences q) (9/10))"
      by - (intro conjI; assumption)
  qed
  have c4: "find_disagreements_in_file_pair ratio pysbd nupunkt cx fname lines seams_data = Some qs \<longrightarrow>
      (\<forall>q \<in> set qs.
         \<not> sentences_are_similar ratio (dis_seams_sentences q) (dis_pysbd_sentences q) (9/10)
         \<or> \<not> sentences_are_similar ratio (dis_seams_sentences q) (dis_nupunkt_sentences q) (9/10))"
  proof (intro impI ballI)
    fix q' assume a: "find_disagreements_in_file_pair ratio pysbd nupunkt cx fname lines seams_data = Some qs"
      and q': "q' \<in> set qs"
    show "\<not> sentences_are_similar ratio (dis_seams_sentences q') (dis_pysbd_sentences q') (9/10)
         \<or> \<not> sentences_are_similar ratio (dis_seams_sentences q') (dis_nupunkt_sentences q') (9/10)"
    proof (cases "seams_data = []")
      case True
      with a q' show ?thesis by (simp add: find_disagreements_in_file_pair_def)
    next
      case False
      with a have "collect (disagreement_in_region ratio pysbd nupunkt cx fname lines seams_data)
          (map (\<lambda>k. 3 * k) [0..<length seams_data div 3]) = Some qs"
        by (simp add: find_disagreements_in_file_pair_def)
      from collect_recorded [OF this] q' obtain c
        where "disagreement_in_region ratio pysbd nupunkt cx fname lines seams_data c = Recorded q'" by blast
      then show ?thesis by (rule region)
    qed
  qed
  from c1 c2 c3 c4 show ?thesis by - (intro conjI; assumption)
qed


theorem records_only_on_disagreement_witness:
  "difference_in_chunk (\<lambda>t. Some (py_split t)) (\<lambda>t. Some [t]) ''doc.txt''
      [''Hello there. Bye now.'' @ [CHR 0x0A]]
      [(''Hello there.'', 1, 1, 1, 13), (''Bye now.'', 1, 14, 1, 22)] (0, 1)
     = Recorded \<lparr> diff_original_text = ''Hello there.'',
          diff_seams_sentences = [''Hello there.''],
          diff_pysbd_sentences = [''Hello'', ''there.''],
          diff_nupunkt_sentences = [''Hello there.''],
          diff_source_file = ''doc.txt'',
          diff_text_start_line = 1, diff_text_start_col = 1,
          diff_text_end_line = 1, diff_text_end_col = 13,
          diff_differs_from_pysbd = True, diff_differs_from_nupunkt = False \<rparr>
   \<and> segmentations_differ [''Hello there.''] [''Hello'', ''there.'']
   \<and> disagreement_in_region same_text_ratio (\<lambda>t. Some [t]) (\<lambda>t. Some [t]) (\<lambda>t. []) ''doc.txt''
      [''Hello there. Bye now. See you.'' @ [CHR 0x0A]]
      [(''Hello there.'', 1, 1, 1, 13), (''Bye now.'', 1, 14, 1, 22), (''See you.'', 1, 23, 1, 31)] 0
     = Recorded \<lparr> dis_original_text = ''Hello there. Bye now. See you.'',
          dis_seams_sentences = [''Hello there.'', ''Bye now.'', ''See you.''],
          dis_pysbd_sentences = [''Hello there. Bye now. See you.''],
          dis_nupunkt_sentences = [''Hello there. Bye now. See you.''],
          dis_disagreement_type = ''seams_vs_both'',
          dis_source_file = ''doc.txt'',
          dis_text_region_start = 0, dis_text_region_end = 3,
          dis_complexity_indicators = [] \<rparr>
   \<and> \<not> sentences_are_similar same_text_ratio [''Hello there.'', ''Bye now.'', ''See you.'']
        [''Hello there. Bye now. See you.''] (9/10)"
  using records_only_on_disagreement
    [of "\<lambda>t. Some (py_split t)" "\<lambda>t. Some [t]" "''doc.txt''"
        "[''Hello there. Bye now.'' @ [CHR 0x0A]]"
        "[(''Hello there.'', 1, 1, 1, 13), (''Bye now.'', 1, 14, 1, 22)]" 0 1]
  by (simp add: difference_in_chunk_def disagreement_in_region_def Let_def py_slice_def py_index_def
      extract_original_text_from_coordinates_def py_strip_def isspace_def
      segment_with_pysbd_def segment_with_nupunkt_def py_split_def
      segmentations_differ_def sentences_are_similar_def classify_disagreement_seams_def
      normalize_for_comparison_def normalize_text_def same_text_ratio_def)

section \<open>Properties of the boundary gold-set builder\<close>

lemma extract_region_out_of_range:
  "sl > int (length lines) \<or> el > int (length lines) \<Longrightarrow>
     extract_original_region lines sl sc el ec = Some []"
  by (simp add: extract_original_region_def)

lemma py_index_beyond: "int (length xs) \<le> i \<Longrightarrow> py_index xs i = None"
  by (simp add: py_index_def)

lemma extract_text_out_of_range:
  assumes "sl > int (length lines) \<or> el > int (length lines)"
  shows "extract_original_text_from_coordinates lines sl sc el ec = []"
proof (cases "sl > int (length lines)")
  case True
  then have "py_index lines (sl - 1) = None" by (simp add: py_index_beyond)
  then show ?thesis by (auto simp add: extract_original_text_from_coordinates_def Let_def)
next
  case False
  with assms have "el > int (length lines)" by simp
  then have "py_index lines (el - 1) = None" by (simp add: py_index_beyond)
  then show ?thesis
    by (simp add: extract_original_text_from_coordinates_def Let_def split: option.splits)
qed

lemma region_step_out_of_range:
  assumes "py_slice seams (int sstart) (int (sstart + 3)) \<noteq> []"
    and "row_start_line (hd (py_slice seams (int sstart) (int (sstart + 3)))) > int (length lines)
       \<or> row_end_line (last (py_slice seams (int sstart) (int (sstart + 3)))) > int (length lines)"
  shows "region_step ratio cx nupunkt pysbd seams comparison lines cmethod sstart state = Some state"
proof -
  let ?g = "py_slice seams (int sstart) (int (sstart + 3))"
  obtain t1 sl sc a1 a2 where h: "hd ?g = (t1, sl, sc, a1, a2)" by (cases "hd ?g")
  obtain t2 b1 b2 el ec where l: "last ?g = (t2, b1, b2, el, ec)" by (cases "last ?g")
  obtain examples fast_idx where st: "state = (examples, fast_idx)" by (cases state)
  have "sl > int (length lines) \<or> el > int (length lines)"
    using assms(2) h l by (simp add: row_start_line_def row_end_line_def)
  then have "extract_original_region lines sl sc el ec = Some []"
    by (rule extract_region_out_of_range)
  then show ?thesis using assms(1) h l st by (simp add: region_step_def Let_def)
qed


lemma run_regions_skip:
  "step sstart state = Some state \<Longrightarrow> run_regions step (sstart # rest) state = run_regions step rest state"
  by simp

text \<open>
  C9 (as the specification states it) has the extraction fail with an error for a span
  beyond the last line. The scripts have no such error: for the one-line document below,
  the span \<open>(5,1,5,6)\<close> beyond its end gives the empty string and raises nothing, the
  same result that the empty span \<open>(1,3,1,3)\<close> inside the document gives.
\<close>

theorem out_of_range_no_error_counterexample:
  "extract_original_region [''Short line.'' @ [CHR 0x0A]] 5 1 5 6 = Some []
   \<and> extract_original_region [''Short line.'' @ [CHR 0x0A]] 5 1 5 6 \<noteq> None
   \<and> extract_original_region [''Short line.'' @ [CHR 0x0A]] 1 3 1 3 = Some []"
  by (simp add: extract_original_region_def py_index_def rstrip_nl_def py_slice_def Let_def)

text \<open>
  C9 (as the code has it). For a span whose first line or last line is greater than the
  number of lines of the document, both extraction functions return the empty string
  and raise nothing. The caller in \<open>find_overlapping_regions\<close> skips that group and
  nothing else: the round leaves the state (the examples found so far and the search
  position) as it was and does not raise, so the loop goes on with the remaining groups
  exactly as if that group had not been there.
\<close>

theorem out_of_range_span_skipped:
  "(sl > int (length lines) \<or> el > int (length lines) \<longrightarrow>
      extract_original_region lines sl sc el ec = Some []
      \<and> extract_original_text_from_coordinates lines sl sc el ec = [])
   \<and> (py_slice seams (int sstart) (int (sstart + 3)) \<noteq> []
      \<and> (row_start_line (hd (py_slice seams (int sstart) (int (sstart + 3)))) > int (length lines)
         \<or> row_end_line (last (py_slice seams (int sstart) (int (sstart + 3)))) > int (length lines))
      \<longrightarrow> region_step ratio cx nupunkt pysbd seams comparison lines cmethod sstart state = Some state
        \<and> run_regions (region_step ratio cx nupunkt pysbd seams comparison lines cmethod)
             (sstart # rest) state
          = run_regions (region_step ratio cx nupunkt pysbd seams comparison lines cmethod) rest state)"
proof -
  have a: "extract_original_region lines sl sc el ec = Some []
      \<and> extract_original_text_from_coordinates lines sl sc el ec = []"
    if "sl > int (length lines) \<or> el > int (length lines)"
    using that extract_region_out_of_range extract_text_out_of_range by simp
  have b: "region_step ratio cx nupunkt pysbd seams comparison lines cmethod sstart state = Some state
        \<and> run_regions (region_step ratio cx nupunkt pysbd seams comparison lines cmethod)
             (sstart # rest) state
          = run_regions (region_step ratio cx nupunkt pysbd seams comparison lines cmethod) rest state"
    if "py_slice seams (int sstart) (int (sstart + 3)) \<noteq> []"
      and "row_start_line (hd (py_slice seams (int sstart) (int (sstart + 3)))) > int (length lines)
         \<or> row_end_line (last (py_slice seams (int sstart) (int (sstart + 3)))) > int (length lines)"
  proof -
    have "region_step ratio cx nupunkt pysbd seams comparison lines cmethod sstart state = Some state"
      using that by (rule region_step_out_of_range)
    then show ?thesis by simp
  qed
  from a b show ?thesis by blast
qed


theorem out_of_range_span_skipped_witness:
  "extract_original_region
        [''The quick brown fox jumps over the lazy dog. It was a sunny day.'' @ [CHR 0x0A]] 9 1 9 23 = Some []
   \<and> region_step same_text_ratio (\<lambda>t. ''normal'') None None
        [(''Missing.'', 9, 1, 9, 9), (''Also missing.'', 9, 10, 9, 23),
         (''The quick brown fox jumps over the lazy dog.'', 1, 1, 1, 45),
         (''It was a sunny day.'', 1, 46, 1, 65)]
        [''The quick brown fox jumps over the lazy dog. It was a sunny day.'']
        [''The quick brown fox jumps over the lazy dog. It was a sunny day.'' @ [CHR 0x0A]]
        ''fast''
        0 ([], 0) = Some ([], 0)
   \<and> run_regions (region_step same_text_ratio (\<lambda>t. ''normal'') None None
        [(''Missing.'', 9, 1, 9, 9), (''Also missing.'', 9, 10, 9, 23),
         (''The quick brown fox jumps over the lazy dog.'', 1, 1, 1, 45),
         (''It was a sunny day.'', 1, 46, 1, 65)]
        [''The quick brown fox jumps over the lazy dog. It was a sunny day.'']
        [''The quick brown fox jumps over the lazy dog. It was a sunny day.'' @ [CHR 0x0A]]
        ''fast'')
        [0, 2] ([], 0)
     = Some ([\<lparr> ex_original_text = ''The quick brown fox jumps over the lazy dog. It was a sunny day.'',
          ex_seams_sentences = [''The quick brown fox jumps over the lazy dog.'', ''It was a sunny day.''],
          ex_comparison_sentences = [''The quick brown fox jumps over the lazy dog. It was a sunny day.''],
          ex_comparison_method = ''fast'',
          ex_nupunkt_sentences = [], ex_pysbd_sentences = [],
          ex_source_file = [], ex_start_line = 1, ex_end_line = 1,
          ex_complexity = ''normal'',
          ex_disagreement_type = ''under_split'' \<rparr>], 1)"
proof -
  have later: "run_regions (region_step same_text_ratio (\<lambda>t. ''normal'') None None
        [(''Missing.'', 9, 1, 9, 9), (''Also missing.'', 9, 10, 9, 23),
         (''The quick brown fox jumps over the lazy dog.'', 1, 1, 1, 45),
         (''It was a sunny day.'', 1, 46, 1, 65)]
        [''The quick brown fox jumps over the lazy dog. It was a sunny day.'']
        [''The quick brown fox jumps over the lazy dog. It was a sunny day.'' @ [CHR 0x0A]]
        ''fast'')
        [2] ([], 0)
     = Some ([\<lparr> ex_original_text = ''The quick brown fox jumps over the lazy dog. It was a sunny day.'',
          ex_seams_sentences = [''The quick brown fox jumps over the lazy dog.'', ''It was a sunny day.''],
          ex_comparison_sentences = [''The quick brown fox jumps over the lazy dog. It was a sunny day.''],
          ex_comparison_method = ''fast'',
          ex_nupunkt_sentences = [], ex_pysbd_sentences = [],
          ex_source_file = [], ex_start_line = 1, ex_end_line = 1,
          ex_complexity = ''normal'',
          ex_disagreement_type = ''under_split'' \<rparr>], 1)"
    by code_simp
  from out_of_range_span_skipped
    [where sl = 9 and el = 9 and sc = 1 and ec = 23
       and lines = "[''The quick brown fox jumps over the lazy dog. It was a sunny day.'' @ [CHR 0x0A]]"
       and seams = "[(''Missing.'', 9, 1, 9, 9), (''Also missing.'', 9, 10, 9, 23),
         (''The quick brown fox jumps over the lazy dog.'', 1, 1, 1, 45),
         (''It was a sunny day.'', 1, 46, 1, 65)]"
       and sstart = 0 and ratio = same_text_ratio and cx = "\<lambda>t. ''normal''"
       and nupunkt = None and pysbd = None
       and comparison = "[''The quick brown fox jumps over the lazy dog. It was a sunny day.'']"
       and cmethod = "''fast''" and state = "([], 0)" and rest = "[2]"]
    later
  show ?thesis
    by (simp add: py_slice_def row_start_line_def row_end_line_def)
qed

lemma classify_boundary_unequal:
  "length b \<noteq> length a \<Longrightarrow>
     (classify_disagreement_boundary a b = ''over_split'' \<or> classify_disagreement_boundary a b = ''under_split'')
     \<and> classify_disagreement_boundary a b \<noteq> ''different_boundaries''"
  by (simp add: classify_disagreement_boundary_def Let_def)

lemma build_example_disagreement:
  assumes "overlapping \<noteq> []" and "length overlapping \<noteq> length seams_texts"
  shows "disagreement_example
           (build_example cx nupunkt pysbd cmethod seams_texts overlapping region sl el)"
  using assms classify_boundary_unequal [of overlapping seams_texts]
  by (simp add: build_example_def Let_def disagreement_example_def)

lemma region_step_examples:
  assumes "region_step ratio cx nupunkt pysbd seams comparison lines cmethod sstart (exs, fi) = Some (exs', fi')"
    and "\<forall>ex \<in> set exs. disagreement_example ex"
  shows "\<forall>ex \<in> set exs'. disagreement_example ex"
  using assms build_example_disagreement
  by (auto simp add: region_step_def Let_def
      split: if_splits option.splits prod.splits)

lemma run_regions_examples:
  assumes "run_regions (region_step ratio cx nupunkt pysbd seams comparison lines cmethod) starts st = Some st'"
    and "\<forall>ex \<in> set (fst st). disagreement_example ex"
  shows "\<forall>ex \<in> set (fst st'). disagreement_example ex"
  using assms
proof (induction starts arbitrary: st)
  case Nil
  then show ?case by simp
next
  case (Cons sstart starts)
  from Cons.prems(1) obtain st1
    where s1: "region_step ratio cx nupunkt pysbd seams comparison lines cmethod sstart st = Some st1"
      and s2: "run_regions (region_step ratio cx nupunkt pysbd seams comparison lines cmethod) starts st1 = Some st'"
    by (auto split: option.splits)
  have "\<forall>ex \<in> set (fst st1). disagreement_example ex"
    using region_step_examples [of ratio cx nupunkt pysbd seams comparison lines cmethod sstart "fst st" "snd st" "fst st1" "snd st1"]
      s1 Cons.prems(2) by simp
  with Cons.IH [OF s2] show ?case by simp
qed


text \<open>
  C10. Every example that \<open>find_overlapping_regions\<close> returns has a non-empty list of
  overlapping comparison sentences whose length differs from the length of its list of
  seams sentences; its disagreement type is \<open>over_split\<close> or \<open>under_split\<close>, never
  \<open>different_boundaries\<close>.
\<close>

theorem boundary_examples_differ_in_count:
  assumes "find_overlapping_regions ratio cx nupunkt pysbd seams comparison lines cmethod = Some examples"
  shows "\<forall>ex \<in> set examples.
           ex_comparison_sentences ex \<noteq> []
           \<and> length (ex_comparison_sentences ex) \<noteq> length (ex_seams_sentences ex)
           \<and> (ex_disagreement_type ex = ''over_split'' \<or> ex_disagreement_type ex = ''under_split'')
           \<and> ex_disagreement_type ex \<noteq> ''different_boundaries''"
proof -
  from assms obtain st'
    where run: "run_regions (region_step ratio cx nupunkt pysbd seams comparison lines cmethod)
                  (map (\<lambda>k. 2 * k) [0..<length seams div 2]) ([], 0) = Some st'"
      and ex: "examples = fst st'"
    by (auto simp add: find_overlapping_regions_def)
  have "\<forall>ex \<in> set (fst st'). disagreement_example ex"
    using run_regions_examples [OF run] by simp
  then show ?thesis by (simp add: ex disagreement_example_def)
qed

theorem boundary_examples_differ_in_count_witness:
  "find_overlapping_regions same_text_ratio (\<lambda>t. ''normal'') None None
      [(''The quick brown fox jumps over the lazy dog.'', 1, 1, 1, 45),
       (''It was a sunny day.'', 1, 46, 1, 65)]
      [''The quick brown fox jumps over the lazy dog. It was a sunny day.'']
      [''The quick brown fox jumps over the lazy dog. It was a sunny day.'' @ [CHR 0x0A]]
      ''fast''
     = Some [\<lparr> ex_original_text = ''The quick brown fox jumps over the lazy dog. It was a sunny day.'',
          ex_seams_sentences = [''The quick brown fox jumps over the lazy dog.'', ''It was a sunny day.''],
          ex_comparison_sentences = [''The quick brown fox jumps over the lazy dog. It was a sunny day.''],
          ex_comparison_method = ''fast'',
          ex_nupunkt_sentences = [], ex_pysbd_sentences = [],
          ex_source_file = [], ex_start_line = 1, ex_end_line = 1,
          ex_complexity = ''normal'',
          ex_disagreement_type = ''under_split'' \<rparr>]
   \<and> ex_disagreement_type
        \<lparr> ex_original_text = ''The quick brown fox jumps over the lazy dog. It was a sunny day.'',
          ex_seams_sentences = [''The quick brown fox jumps over the lazy dog.'', ''It was a sunny day.''],
          ex_comparison_sentences = [''The quick brown fox jumps over the lazy dog. It was a sunny day.''],
          ex_comparison_method = ''fast'',
          ex_nupunkt_sentences = [], ex_pysbd_sentences = [],
          ex_source_file = [], ex_start_line = 1, ex_end_line = 1,
          ex_complexity = ''normal'',
          ex_disagreement_type = ''under_split'' \<rparr> \<noteq> ''different_boundaries''"
proof -
  have run: "find_overlapping_regions same_text_ratio (\<lambda>t. ''normal'') None None
      [(''The quick brown fox jumps over the lazy dog.'', 1, 1, 1, 45),
       (''It was a sunny day.'', 1, 46, 1, 65)]
      [''The quick brown fox jumps over the lazy dog. It was a sunny day.'']
      [''The quick brown fox jumps over the lazy dog. It was a sunny day.'' @ [CHR 0x0A]]
      ''fast''
     = Some [\<lparr> ex_original_text = ''The quick brown fox jumps over the lazy dog. It was a sunny day.'',
          ex_seams_sentences = [''The quick brown fox jumps over the lazy dog.'', ''It was a sunny day.''],
          ex_comparison_sentences = [''The quick brown fox jumps over the lazy dog. It was a sunny day.''],
          ex_comparison_method = ''fast'',
          ex_nupunkt_sentences = [], ex_pysbd_sentences = [],
          ex_source_file = [], ex_start_line = 1, ex_end_line = 1,
          ex_complexity = ''normal'',
          ex_disagreement_type = ''under_split'' \<rparr>]"
    by code_simp
  from boundary_examples_differ_in_count [OF run] run show ?thesis
    by (simp del: BoundaryExample.simps)
qed

section \<open>Properties of the sampler\<close>

lemma append_to_key_mset:
  "mset (concat (map snd (append_to_key k x groups))) = mset (concat (map snd groups)) + {#x#}"
  by (induction k x groups rule: append_to_key.induct) auto

lemma foldl_append_to_key_mset:
  "mset (concat (map snd (foldl (\<lambda>groups ex. append_to_key (key ex) ex groups) groups xs)))
     = mset (concat (map snd groups)) + mset xs"
  by (induction xs arbitrary: groups) (simp_all add: append_to_key_mset)

lemma group_examples_mset: "mset (concat (map snd (group_examples xs))) = mset xs"
  using foldl_append_to_key_mset [of example_key "[]" xs] by (simp add: group_examples_def)

lemma sample_categories_bounds:
  assumes "sample_contract sample"
  shows "length (fst (sample_categories sample n k groups g)) \<le> length groups * (n div k)
       \<and> mset (fst (sample_categories sample n k groups g)) \<subseteq># mset (concat (map snd groups))"
proof (induction groups arbitrary: g)
  case Nil
  then show ?case by simp
next
  case (Cons grp groups)
  obtain category examples where grp: "grp = (category, examples)" by (cases grp)
  show ?case
  proof (cases "examples = []")
    case True
    with Cons [of g] grp show ?thesis by simp
  next
    case False
    let ?m = "min (min (length examples) (n div k)) (length examples)"
    obtain selected g' where s: "sample g examples ?m = (selected, g')" by (cases "sample g examples ?m")
    obtain others g'' where r: "sample_categories sample n k groups g' = (others, g'')"
      by (cases "sample_categories sample n k groups g'")
    have "?m \<le> length examples" by simp
    with assms have "length (fst (sample g examples ?m)) = ?m
        \<and> mset (fst (sample g examples ?m)) \<subseteq># mset examples"
      unfolding sample_contract_def by blast
    then have sel: "length selected = ?m" "mset selected \<subseteq># mset examples" using s by simp_all
    have oth: "length others \<le> length groups * (n div k)"
      "mset others \<subseteq># mset (concat (map snd groups))"
      using Cons [of g'] r by simp_all
    have res: "fst (sample_categories sample n k (grp # groups) g) = selected @ others"
      using grp False s r by (simp add: Let_def)
    have "length (selected @ others) \<le> length (grp # groups) * (n div k)"
      using sel(1) oth(1) by simp
    moreover have "mset (selected @ others) \<subseteq># mset (concat (map snd (grp # groups)))"
      using sel(2) oth(2) grp by (simp add: subset_mset.add_mono)
    ultimately show ?thesis using res by simp
  qed
qed


lemma distinct_sub_mset:
  assumes "distinct ys" and "mset xs \<subseteq># mset ys"
  shows "distinct xs"
proof -
  from assms(2) obtain zs where zs: "mset ys = mset xs + zs"
    by (auto simp add: mset_subset_eq_exists_conv)
  obtain zl where zl: "mset zl = zs" using ex_mset by blast
  have "mset ys = mset (xs @ zl)" using zs zl by simp
  then have "distinct (xs @ zl)" using assms(1) mset_eq_imp_distinct_iff by blast
  then show ?thesis by simp
qed

lemma remaining_enough:
  assumes "N \<le> card (set xs)"
  shows "N - length sel \<le> length (filter (\<lambda>x. x \<notin> set sel) xs)"
proof -
  let ?rem = "filter (\<lambda>x. x \<notin> set sel) xs"
  have "set xs \<subseteq> set sel \<union> set ?rem" by auto
  then have "card (set xs) \<le> card (set sel \<union> set ?rem)" by (simp add: card_mono)
  also have "\<dots> \<le> card (set sel) + card (set ?rem)" by (rule card_Un_le)
  also have "\<dots> \<le> length sel + length ?rem"
    by (rule add_mono; rule card_length)
  finally show ?thesis using assms by linarith
qed

lemma remaining_mset:
  assumes "mset sel \<subseteq># mset xs"
  shows "mset sel + mset (filter (\<lambda>x. x \<notin> set sel) xs) \<subseteq># mset xs"
proof -
  have "filter_mset (\<lambda>x. x \<in> set sel) (mset sel) \<subseteq># filter_mset (\<lambda>x. x \<in> set sel) (mset xs)"
    using assms by (rule multiset_filter_mono)
  moreover have "filter_mset (\<lambda>x. x \<in> set sel) (mset sel) = mset sel"
    by (simp add: filter_mset_eq_conv)
  ultimately have "mset sel \<subseteq># filter_mset (\<lambda>x. x \<in> set sel) (mset xs)" by simp
  then have "mset sel + filter_mset (\<lambda>x. \<not> x \<in> set sel) (mset xs)
      \<subseteq># filter_mset (\<lambda>x. x \<in> set sel) (mset xs) + filter_mset (\<lambda>x. \<not> x \<in> set sel) (mset xs)"
    by (rule subset_mset.add_right_mono)
  moreover have "filter_mset (\<lambda>x. x \<in> set sel) (mset xs) + filter_mset (\<lambda>x. \<not> x \<in> set sel) (mset xs)
      = mset xs"
    by (rule multiset_partition [symmetric])
  ultimately have "mset sel + filter_mset (\<lambda>x. \<not> x \<in> set sel) (mset xs) \<subseteq># mset xs"
    by (simp only:)
  then show ?thesis by (simp only: mset_filter)
qed


lemma select_examples_size:
  assumes smp: "sample_contract sample" and shf: "shuffle_contract shuffle"
    and enough: "N \<le> card (set all_examples)"
  shows "length (fst (select_examples sample shuffle N g all_examples)) = N
       \<and> mset (fst (select_examples sample shuffle N g all_examples)) \<subseteq># mset all_examples"
proof -
  let ?groups = "group_examples all_examples"
  obtain sel1 g1 where p1: "sample_categories sample N (length ?groups) ?groups g = (sel1, g1)"
    by (cases "sample_categories sample N (length ?groups) ?groups g")
  have b1: "length sel1 \<le> length ?groups * (N div length ?groups)"
    and m1': "mset sel1 \<subseteq># mset (concat (map snd ?groups))"
    using sample_categories_bounds [OF smp, of N "length ?groups" ?groups g] p1 by simp_all
  have m1: "mset sel1 \<subseteq># mset all_examples" using m1' by (simp only: group_examples_mset)
  have "length ?groups * (N div length ?groups) \<le> N" by simp
  with b1 have l1: "length sel1 \<le> N" by (rule order_trans)
  let ?rem = "filter (\<lambda>ex. ex \<notin> set sel1) all_examples"
  let ?phase2 = "if length sel1 < N then
                   let remaining = ?rem; additional_needed = N - length sel1
                   in if remaining \<noteq> [] then
                        (case sample g1 remaining (min additional_needed (length remaining)) of
                           (additional, g2) \<Rightarrow> (sel1 @ additional, g2))
                      else (sel1, g1)
                 else (sel1, g1)"
  obtain sel2 g2 where p2: "?phase2 = (sel2, g2)" by (cases ?phase2)
  have s2: "length sel2 = N \<and> mset sel2 \<subseteq># mset all_examples"
  proof (cases "length sel1 < N")
    case False
    with l1 have "length sel1 = N" by simp
    moreover have "sel2 = sel1" using p2 False by simp
    ultimately show ?thesis using m1 by simp
  next
    case True
    have need: "N - length sel1 \<le> length ?rem" using enough by (rule remaining_enough)
    with True have nonempty: "?rem \<noteq> []" by auto
    obtain additional g2' where a: "sample g1 ?rem (N - length sel1) = (additional, g2')"
      by (cases "sample g1 ?rem (N - length sel1)")
    have "length (fst (sample g1 ?rem (N - length sel1))) = N - length sel1
        \<and> mset (fst (sample g1 ?rem (N - length sel1))) \<subseteq># mset ?rem"
      using smp need unfolding sample_contract_def by blast
    then have la: "length additional = N - length sel1" and ma: "mset additional \<subseteq># mset ?rem"
      using a by simp_all
    have "min (N - length sel1) (length ?rem) = N - length sel1" using need by simp
    then have "sel2 = sel1 @ additional"
      using p2 True nonempty a by (simp add: Let_def)
    moreover have "length (sel1 @ additional) = N" using la True by simp
    moreover have "mset (sel1 @ additional) \<subseteq># mset all_examples"
    proof -
      have "mset sel1 + mset additional \<subseteq># mset sel1 + mset ?rem"
        using ma by (rule subset_mset.add_left_mono)
      also have "\<dots> \<subseteq># mset all_examples" using m1 by (rule remaining_mset)
      finally show ?thesis by simp
    qed
    ultimately show ?thesis by simp
  qed
  obtain shuffled g3 where p3: "shuffle g2 sel2 = (shuffled, g3)" by (cases "shuffle g2 sel2")
  have ms: "mset shuffled = mset sel2"
    using shf p3 unfolding shuffle_contract_def by (metis fst_conv)
  then have ls: "length shuffled = N" using s2 by (metis size_mset)
  have "fst (select_examples sample shuffle N g all_examples) = take N shuffled"
    using p1 p2 p3 by (simp add: select_examples_def Let_def)
  then show ?thesis using ms ls s2 by simp
qed


text \<open>
  What the sampler does give. Let \<open>random.sample\<close> return \<open>k\<close> elements from
  different positions of its population and \<open>random.shuffle\<close> rearrange its list. When
  the candidates hold at least \<open>N\<close> different examples, the sampler returns exactly
  \<open>N\<close> examples; no candidate is returned more often than it occurs among the
  candidates, so for pairwise different candidates the result has no repetition.
\<close>

lemma sampler_exact_size:
  assumes "sample_contract sample" and "shuffle_contract shuffle"
    and "N \<le> card (set all_examples)"
  shows "length (fst (select_examples sample shuffle N g all_examples)) = N
       \<and> mset (fst (select_examples sample shuffle N g all_examples)) \<subseteq># mset all_examples
       \<and> (distinct all_examples \<longrightarrow> distinct (fst (select_examples sample shuffle N g all_examples)))"
proof -
  note size = select_examples_size [OF assms, of g]
  have "distinct (fst (select_examples sample shuffle N g all_examples))" if "distinct all_examples"
    using that size distinct_sub_mset by blast
  then show ?thesis using size by simp
qed

lemma take_sample_contract: "sample_contract (\<lambda>(g :: 'g) (xs :: 'a list) k. (take k xs, g))"
proof -
  have "mset (take k xs) \<subseteq># mset xs" for k and xs :: "'a list"
  proof -
    have "mset (take k xs) + mset (drop k xs) = mset xs"
      by (simp only: mset_append [symmetric] append_take_drop_id)
    then show ?thesis by (metis mset_subset_eq_add_left)
  qed
  then show ?thesis by (simp add: sample_contract_def)
qed

lemma rev_shuffle_contract: "shuffle_contract (\<lambda>g xs. (rev xs, g))"
  by (simp add: shuffle_contract_def)

lemma sampler_exact_size_example:
  "fst (select_examples (\<lambda>g xs k. (take k xs, g)) (\<lambda>g xs. (rev xs, g)) 3 (42 :: nat)
        [\<lparr> ex_original_text = ''a'', ex_seams_sentences = [''a''], ex_comparison_sentences = [''a'', ''a''],
          ex_comparison_method = ''fast'', ex_nupunkt_sentences = [], ex_pysbd_sentences = [],
          ex_source_file = ''f'', ex_start_line = 1, ex_end_line = 1, ex_complexity = ''normal'',
          ex_disagreement_type = ''over_split'' \<rparr>,
         \<lparr> ex_original_text = ''b'', ex_seams_sentences = [''b'', ''b''], ex_comparison_sentences = [''b''],
          ex_comparison_method = ''fast'', ex_nupunkt_sentences = [], ex_pysbd_sentences = [],
          ex_source_file = ''f'', ex_start_line = 2, ex_end_line = 2, ex_complexity = ''normal'',
          ex_disagreement_type = ''under_split'' \<rparr>,
         \<lparr> ex_original_text = ''c'', ex_seams_sentences = [''c''], ex_comparison_sentences = [''c'', ''c''],
          ex_comparison_method = ''fast'', ex_nupunkt_sentences = [], ex_pysbd_sentences = [],
          ex_source_file = ''f'', ex_start_line = 3, ex_end_line = 3, ex_complexity = ''normal'',
          ex_disagreement_type = ''over_split'' \<rparr>])
     = [\<lparr> ex_original_text = ''c'', ex_seams_sentences = [''c''], ex_comparison_sentences = [''c'', ''c''],
          ex_comparison_method = ''fast'', ex_nupunkt_sentences = [], ex_pysbd_sentences = [],
          ex_source_file = ''f'', ex_start_line = 3, ex_end_line = 3, ex_complexity = ''normal'',
          ex_disagreement_type = ''over_split'' \<rparr>,
         \<lparr> ex_original_text = ''b'', ex_seams_sentences = [''b'', ''b''], ex_comparison_sentences = [''b''],
          ex_comparison_method = ''fast'', ex_nupunkt_sentences = [], ex_pysbd_sentences = [],
          ex_source_file = ''f'', ex_start_line = 2, ex_end_line = 2, ex_complexity = ''normal'',
          ex_disagreement_type = ''under_split'' \<rparr>,
         \<lparr> ex_original_text = ''a'', ex_seams_sentences = [''a''], ex_comparison_sentences = [''a'', ''a''],
          ex_comparison_method = ''fast'', ex_nupunkt_sentences = [], ex_pysbd_sentences = [],
          ex_source_file = ''f'', ex_start_line = 1, ex_end_line = 1, ex_complexity = ''normal'',
          ex_disagreement_type = ''over_split'' \<rparr>]
   \<and> length (fst (select_examples (\<lambda>g xs k. (take k xs, g)) (\<lambda>g xs. (rev xs, g)) 3 (42 :: nat)
        [\<lparr> ex_original_text = ''a'', ex_seams_sentences = [''a''], ex_comparison_sentences = [''a'', ''a''],
          ex_comparison_method = ''fast'', ex_nupunkt_sentences = [], ex_pysbd_sentences = [],
          ex_source_file = ''f'', ex_start_line = 1, ex_end_line = 1, ex_complexity = ''normal'',
          ex_disagreement_type = ''over_split'' \<rparr>,
         \<lparr> ex_original_text = ''b'', ex_seams_sentences = [''b'', ''b''], ex_comparison_sentences = [''b''],
          ex_comparison_method = ''fast'', ex_nupunkt_sentences = [], ex_pysbd_sentences = [],
          ex_source_file = ''f'', ex_start_line = 2, ex_end_line = 2, ex_complexity = ''normal'',
          ex_disagreement_type = ''under_split'' \<rparr>,
         \<lparr> ex_original_text = ''c'', ex_seams_sentences = [''c''], ex_comparison_sentences = [''c'', ''c''],
          ex_comparison_method = ''fast'', ex_nupunkt_sentences = [], ex_pysbd_sentences = [],
          ex_source_file = ''f'', ex_start_line = 3, ex_end_line = 3, ex_complexity = ''normal'',
          ex_disagreement_type = ''over_split'' \<rparr>])) = 3
   \<and> distinct (fst (select_examples (\<lambda>g xs k. (take k xs, g)) (\<lambda>g xs. (rev xs, g)) 3 (42 :: nat)
        [\<lparr> ex_original_text = ''a'', ex_seams_sentences = [''a''], ex_comparison_sentences = [''a'', ''a''],
          ex_comparison_method = ''fast'', ex_nupunkt_sentences = [], ex_pysbd_sentences = [],
          ex_source_file = ''f'', ex_start_line = 1, ex_end_line = 1, ex_complexity = ''normal'',
          ex_disagreement_type = ''over_split'' \<rparr>,
         \<lparr> ex_original_text = ''b'', ex_seams_sentences = [''b'', ''b''], ex_comparison_sentences = [''b''],
          ex_comparison_method = ''fast'', ex_nupunkt_sentences = [], ex_pysbd_sentences = [],
          ex_source_file = ''f'', ex_start_line = 2, ex_end_line = 2, ex_complexity = ''normal'',
          ex_disagreement_type = ''under_split'' \<rparr>,
         \<lparr> ex_original_text = ''c'', ex_seams_sentences = [''c''], ex_comparison_sentences = [''c'', ''c''],
          ex_comparison_method = ''fast'', ex_nupunkt_sentences = [], ex_pysbd_sentences = [],
          ex_source_file = ''f'', ex_start_line = 3, ex_end_line = 3, ex_complexity = ''normal'',
          ex_disagreement_type = ''over_split'' \<rparr>]))"
proof -
  have run: "fst (select_examples (\<lambda>g xs k. (take k xs, g)) (\<lambda>g xs. (rev xs, g)) 3 (42 :: nat)
        [\<lparr> ex_original_text = ''a'', ex_seams_sentences = [''a''], ex_comparison_sentences = [''a'', ''a''],
          ex_comparison_method = ''fast'', ex_nupunkt_sentences = [], ex_pysbd_sentences = [],
          ex_source_file = ''f'', ex_start_line = 1, ex_end_line = 1, ex_complexity = ''normal'',
          ex_disagreement_type = ''over_split'' \<rparr>,
         \<lparr> ex_original_text = ''b'', ex_seams_sentences = [''b'', ''b''], ex_comparison_sentences = [''b''],
          ex_comparison_method = ''fast'', ex_nupunkt_sentences = [], ex_pysbd_sentences = [],
          ex_source_file = ''f'', ex_start_line = 2, ex_end_line = 2, ex_complexity = ''normal'',
          ex_disagreement_type = ''under_split'' \<rparr>,
         \<lparr> ex_original_text = ''c'', ex_seams_sentences = [''c''], ex_comparison_sentences = [''c'', ''c''],
          ex_comparison_method = ''fast'', ex_nupunkt_sentences = [], ex_pysbd_sentences = [],
          ex_source_file = ''f'', ex_start_line = 3, ex_end_line = 3, ex_complexity = ''normal'',
          ex_disagreement_type = ''over_split'' \<rparr>])
     = [\<lparr> ex_original_text = ''c'', ex_seams_sentences = [''c''], ex_comparison_sentences = [''c'', ''c''],
          ex_comparison_method = ''fast'', ex_nupunkt_sentences = [], ex_pysbd_sentences = [],
          ex_source_file = ''f'', ex_start_line = 3, ex_end_line = 3, ex_complexity = ''normal'',
          ex_disagreement_type = ''over_split'' \<rparr>,
         \<lparr> ex_original_text = ''b'', ex_seams_sentences = [''b'', ''b''], ex_comparison_sentences = [''b''],
          ex_comparison_method = ''fast'', ex_nupunkt_sentences = [], ex_pysbd_sentences = [],
          ex_source_file = ''f'', ex_start_line = 2, ex_end_line = 2, ex_complexity = ''normal'',
          ex_disagreement_type = ''under_split'' \<rparr>,
         \<lparr> ex_original_text = ''a'', ex_seams_sentences = [''a''], ex_comparison_sentences = [''a'', ''a''],
          ex_comparison_method = ''fast'', ex_nupunkt_sentences = [], ex_pysbd_sentences = [],
          ex_source_file = ''f'', ex_start_line = 1, ex_end_line = 1, ex_complexity = ''normal'',
          ex_disagreement_type = ''over_split'' \<rparr>]"
    by code_simp
  have enough: "3 \<le> card (set
        [\<lparr> ex_original_text = ''a'', ex_seams_sentences = [''a''], ex_comparison_sentences = [''a'', ''a''],
          ex_comparison_method = ''fast'', ex_nupunkt_sentences = [], ex_pysbd_sentences = [],
          ex_source_file = ''f'', ex_start_line = 1, ex_end_line = 1, ex_complexity = ''normal'',
          ex_disagreement_type = ''over_split'' \<rparr>,
         \<lparr> ex_original_text = ''b'', ex_seams_sentences = [''b'', ''b''], ex_comparison_sentences = [''b''],
          ex_comparison_method = ''fast'', ex_nupunkt_sentences = [], ex_pysbd_sentences = [],
          ex_source_file = ''f'', ex_start_line = 2, ex_end_line = 2, ex_complexity = ''normal'',
          ex_disagreement_type = ''under_split'' \<rparr>,
         \<lparr> ex_original_text = ''c'', ex_seams_sentences = [''c''], ex_comparison_sentences = [''c'', ''c''],
          ex_comparison_method = ''fast'', ex_nupunkt_sentences = [], ex_pysbd_sentences = [],
          ex_source_file = ''f'', ex_start_line = 3, ex_end_line = 3, ex_complexity = ''normal'',
          ex_disagreement_type = ''over_split'' \<rparr>])"
    by simp
  have all_distinct: "distinct
        [\<lparr> ex_original_text = ''a'', ex_seams_sentences = [''a''], ex_comparison_sentences = [''a'', ''a''],
          ex_comparison_method = ''fast'', ex_nupunkt_sentences = [], ex_pysbd_sentences = [],
          ex_source_file = ''f'', ex_start_line = 1, ex_end_line = 1, ex_complexity = ''normal'',
          ex_disagreement_type = ''over_split'' \<rparr>,
         \<lparr> ex_original_text = ''b'', ex_seams_sentences = [''b'', ''b''], ex_comparison_sentences = [''b''],
          ex_comparison_method = ''fast'', ex_nupunkt_sentences = [], ex_pysbd_sentences = [],
          ex_source_file = ''f'', ex_start_line = 2, ex_end_line = 2, ex_complexity = ''normal'',
          ex_disagreement_type = ''under_split'' \<rparr>,
         \<lparr> ex_original_text = ''c'', ex_seams_sentences = [''c''], ex_comparison_sentences = [''c'', ''c''],
          ex_comparison_method = ''fast'', ex_nupunkt_sentences = [], ex_pysbd_sentences = [],
          ex_source_file = ''f'', ex_start_line = 3, ex_end_line = 3, ex_complexity = ''normal'',
          ex_disagreement_type = ''over_split'' \<rparr>]"
    by simp
  from sampler_exact_size [OF take_sample_contract rev_shuffle_contract enough, of 42] all_distinct run
  show ?thesis by blast
qed

lemma sample_of_copies:
  assumes "length s = 1" and "mset s \<subseteq># mset xs" and "set xs = {a}"
  shows "s = [a]"
proof -
  from assms(1) obtain x where s: "s = [x]" by (cases s) auto
  then have "x \<in> set xs" using assms(2) by (metis mset_subset_eqD in_multiset_in_set list.set_intros(1))
  then show ?thesis using assms(3) s by simp
qed

text \<open>
  C8 asks for exactly \<open>N\<close> examples whenever there are at least \<open>N\<close> candidates.
  The top-up of the sampler ("Fill remaining slots if under target") builds the
  unselected remainder with \<open>ex not in selected_examples\<close>, which compares the examples
  by value. For three candidates, the same example twice and one example of another
  category, and \<open>N = 3\<close>, the stratified pass takes one example of each category, the
  remainder is empty although one candidate is unselected, and the sampler returns 2
  examples, whatever \<open>random.sample\<close> and \<open>random.shuffle\<close> choose.
\<close>

theorem sampler_underfills_equal_candidates:
  assumes smp: "sample_contract sample" and shf: "shuffle_contract shuffle"
    and keys: "example_key a \<noteq> example_key b"
  shows "length (fst (select_examples sample shuffle 3 g [a, a, b])) = 2"
proof -
  have ab: "a \<noteq> b" using keys by auto
  have groups: "group_examples [a, a, b] = [(example_key a, [a, a]), (example_key b, [b])]"
    using keys by (auto simp add: group_examples_def)
  obtain s1 g1 where p1: "sample g [a, a] 1 = (s1, g1)" by (cases "sample g [a, a] 1")
  have "length (fst (sample g [a, a] 1)) = 1 \<and> mset (fst (sample g [a, a] 1)) \<subseteq># mset [a, a]"
    using smp unfolding sample_contract_def by (metis One_nat_def Suc_leI length_Cons zero_less_Suc)
  then have s1: "s1 = [a]" using p1 sample_of_copies [of s1 "[a, a]" a] by simp
  obtain s2 g2 where p2: "sample g1 [b] 1 = (s2, g2)" by (cases "sample g1 [b] 1")
  have "length (fst (sample g1 [b] 1)) = 1 \<and> mset (fst (sample g1 [b] 1)) \<subseteq># mset [b]"
    using smp unfolding sample_contract_def by (metis One_nat_def length_Cons list.size(3) order_refl)
  then have s2: "s2 = [b]" using p2 sample_of_copies [of s2 "[b]" b] by simp
  have cats: "sample_categories sample 3 2 [(example_key a, [a, a]), (example_key b, [b])] g = ([a, b], g2)"
    using p1 p2 s1 s2 by (simp add: Let_def)
  obtain sh g3 where p3: "shuffle g2 [a, b] = (sh, g3)" by (cases "shuffle g2 [a, b]")
  have "mset sh = mset [a, b]" using shf p3 unfolding shuffle_contract_def by (metis fst_conv)
  then have "length sh = length [a, b]" by (rule mset_eq_length)
  then have lsh: "length sh = 2" by simp
  have sel: "sample_categories sample 3 (length (group_examples [a, a, b])) (group_examples [a, a, b]) g
      = ([a, b], g2)"
  proof -
    have d: "(3 :: nat) div Suc (Suc 0) = Suc 0" by (simp add: numeral_2_eq_2 [symmetric])
    show ?thesis using cats by (simp only: groups) (simp add: d)
  qed
  have "fst (select_examples sample shuffle 3 g [a, a, b]) = take 3 sh"
    unfolding select_examples_def Let_def sel using p3 ab by simp
  then show ?thesis using lsh by simp
qed

theorem sampler_underfills_equal_candidates_witness:
  "length (fst (select_examples (\<lambda>g xs k. (take k xs, g)) (\<lambda>g xs. (rev xs, g)) 3 (42 :: nat)
        [\<lparr> ex_original_text = ''a'', ex_seams_sentences = [''a''], ex_comparison_sentences = [''a'', ''a''],
          ex_comparison_method = ''fast'', ex_nupunkt_sentences = [], ex_pysbd_sentences = [],
          ex_source_file = ''f'', ex_start_line = 1, ex_end_line = 1, ex_complexity = ''normal'',
          ex_disagreement_type = ''over_split'' \<rparr>,
         \<lparr> ex_original_text = ''a'', ex_seams_sentences = [''a''], ex_comparison_sentences = [''a'', ''a''],
          ex_comparison_method = ''fast'', ex_nupunkt_sentences = [], ex_pysbd_sentences = [],
          ex_source_file = ''f'', ex_start_line = 1, ex_end_line = 1, ex_complexity = ''normal'',
          ex_disagreement_type = ''over_split'' \<rparr>,
         \<lparr> ex_original_text = ''b'', ex_seams_sentences = [''b'', ''b''], ex_comparison_sentences = [''b''],
          ex_comparison_method = ''fast'', ex_nupunkt_sentences = [], ex_pysbd_sentences = [],
          ex_source_file = ''f'', ex_start_line = 2, ex_end_line = 2, ex_complexity = ''normal'',
          ex_disagreement_type = ''under_split'' \<rparr>]))
     = 2"
proof -
  have keys: "example_key
        \<lparr> ex_original_text = ''a'', ex_seams_sentences = [''a''], ex_comparison_sentences = [''a'', ''a''],
          ex_comparison_method = ''fast'', ex_nupunkt_sentences = [], ex_pysbd_sentences = [],
          ex_source_file = ''f'', ex_start_line = 1, ex_end_line = 1, ex_complexity = ''normal'',
          ex_disagreement_type = ''over_split'' \<rparr>
      \<noteq> example_key
        \<lparr> ex_original_text = ''b'', ex_seams_sentences = [''b'', ''b''], ex_comparison_sentences = [''b''],
          ex_comparison_method = ''fast'', ex_nupunkt_sentences = [], ex_pysbd_sentences = [],
          ex_source_file = ''f'', ex_start_line = 2, ex_end_line = 2, ex_complexity = ''normal'',
          ex_disagreement_type = ''under_split'' \<rparr>"
    by (simp add: example_key_def)
  from sampler_underfills_equal_candidates [OF take_sample_contract rev_shuffle_contract keys, of 42]
  show ?thesis .
qed

text \<open>
  Equal candidates do occur: a seams file that lists the same row five times gives two
  groups of three rows with the same texts and the same span, and
  \<open>find_overlapping_regions\<close> returns the same example for both.
\<close>

lemma equal_examples_from_repeated_rows:
  "find_overlapping_regions same_text_ratio (\<lambda>t. ''normal'') None None
      (replicate 5 (''The quick brown fox jumps over the lazy dog. It was a sunny day.'', 1, 1, 1, 65))
      [''The quick brown fox jumps over the lazy dog.'']
      [''The quick brown fox jumps over the lazy dog. It was a sunny day.'' @ [CHR 0x0A]]
      ''fast''
     = Some (replicate 2
        \<lparr> ex_original_text = ''The quick brown fox jumps over the lazy dog. It was a sunny day.'',
          ex_seams_sentences = replicate 3 ''The quick brown fox jumps over the lazy dog. It was a sunny day.'',
          ex_comparison_sentences = [''The quick brown fox jumps over the lazy dog.''],
          ex_comparison_method = ''fast'',
          ex_nupunkt_sentences = [], ex_pysbd_sentences = [],
          ex_source_file = [], ex_start_line = 1, ex_end_line = 1,
          ex_complexity = ''normal'',
          ex_disagreement_type = ''under_split'' \<rparr>)"
  by code_simp

end
